theory Spec2Isabelle
  imports Complex_Main "HOL-Library.Sublist"
begin

section \<open>A shallow embedding of the request-audit capture pipeline\<close>

text \<open>
  The development follows the TypeScript source of the audit logger: the interceptor
  (\<^verbatim>\<open>AuditLoggerInterceptor\<close>), the service (\<^verbatim>\<open>AuditLoggerService\<close>) and the
  decorator helpers.  Strings are lists of 8-bit characters: Node delivers header
  names, header values and the request target as Latin-1 decoded strings, one code unit
  per byte.
\<close>

subsection \<open>JavaScript primitives used by the source\<close>

text \<open>
  \<^verbatim>\<open>String.prototype.toLowerCase\<close> on code units below 256: the ASCII capitals and the
  Latin-1 capitals (\<open>0xC0\<close>--\<open>0xDE\<close> without the multiplication sign) move up by 32.
\<close>

definition js_lower :: "char \<Rightarrow> char" where
  "js_lower c = (let n = (of_char c :: nat) in
     if (65 \<le> n \<and> n \<le> 90) \<or> (192 \<le> n \<and> n \<le> 222 \<and> n \<noteq> 215)
     then char_of (n + 32) else c)"

definition toLowerCase :: "string \<Rightarrow> string" where
  "toLowerCase s = map js_lower s"

text \<open>
  Truthiness of a value of TypeScript type \<^verbatim>\<open>string | undefined\<close>: \<^verbatim>\<open>undefined\<close>
  (\<open>None\<close>) and the empty string are falsy, every other string is truthy.
\<close>

fun truthy :: "string option \<Rightarrow> bool" where
  "truthy None = False"
| "truthy (Some s) = (s \<noteq> [])"

subsection \<open>Header sanitizer\<close>

type_synonym headers = "string \<rightharpoonup> string"

definition REDACTED :: string where
  "REDACTED = ''[REDACTED]''"

definition sensitiveHeaders :: "string list" where
  "sensitiveHeaders =
     [''authorization'', ''cookie'', ''x-api-token'', ''x-auth-token'',
      ''x-access-token'', ''api-key'', ''apikey'']"

text \<open>
  The body of the \<^verbatim>\<open>forEach\<close> callback of \<^verbatim>\<open>sanitizeHeaders\<close>: two guarded
  assignments, the first under the name as listed, the second under its lower-cased form.
\<close>

definition redact :: "headers \<Rightarrow> string \<Rightarrow> headers" where
  "redact sanitized header =
     (let s1 = (if truthy (sanitized header) then sanitized(header \<mapsto> REDACTED)
                else sanitized);
          s2 = (if truthy (s1 (toLowerCase header)) then s1(toLowerCase header \<mapsto> REDACTED)
                else s1)
      in s2)"

text \<open>The contents of the object that \<^verbatim>\<open>sanitizeHeaders\<close> returns.\<close>

definition sanitizeHeaders :: "headers \<Rightarrow> headers" where
  "sanitizeHeaders hdrs = foldl redact hdrs sensitiveHeaders"

text \<open>
  The same function over an explicit object store, to speak about aliasing.  A store is
  the list of allocated header objects, a reference is an index into it.  The spread
  \<^verbatim>\<open>{ ...headers }\<close> allocates a fresh object holding the own properties of its
  argument (none when the argument is not an object), and the assignments of the loop
  write to that fresh object only.
\<close>

type_synonym store = "headers list"

definition spread :: "store \<Rightarrow> nat \<Rightarrow> store \<times> nat" where
  "spread st a = (st @ [if a < length st then st ! a else Map.empty], length st)"

definition assign :: "store \<Rightarrow> nat \<Rightarrow> string \<Rightarrow> string \<Rightarrow> store" where
  "assign st r k v = st[r := (st ! r)(k \<mapsto> v)]"

definition redact_at :: "nat \<Rightarrow> store \<Rightarrow> string \<Rightarrow> store" where
  "redact_at r st header =
     (let st1 = (if truthy ((st ! r) header) then assign st r header REDACTED else st);
          st2 = (if truthy ((st1 ! r) (toLowerCase header))
                 then assign st1 r (toLowerCase header) REDACTED else st1)
      in st2)"

definition sanitizeHeaders_store :: "store \<Rightarrow> nat \<Rightarrow> store \<times> nat" where
  "sanitizeHeaders_store st a =
     (let (st0, sanitized) = spread st a
      in (foldl (redact_at sanitized) st0 sensitiveHeaders, sanitized))"


subsection \<open>JavaScript values\<close>

text \<open>
  Values of TypeScript type \<^verbatim>\<open>any\<close>: what \<^verbatim>\<open>JSON.parse\<close> returns, request and
  response payloads, and what a property read can yield.  Numbers are the finite ones.
  \<open>JFun\<close> stands for a built-in function object, named by its path.
\<close>

datatype js = JUndefined | JNull | JBool bool | JNum real | JStr string
  | JArr "js list" | JObj "(string \<times> js) list" | JFun string

fun js_truthy :: "js \<Rightarrow> bool" where
  "js_truthy JUndefined = False"
| "js_truthy JNull = False"
| "js_truthy (JBool b) = b"
| "js_truthy (JNum n) = (n \<noteq> 0)"
| "js_truthy (JStr s) = (s \<noteq> [])"
| "js_truthy (JArr xs) = True"
| "js_truthy (JObj kvs) = True"
| "js_truthy (JFun f) = True"

datatype exn = TypeError | SyntaxError | StoreError string

text \<open>
  A property read \<^verbatim>\<open>v.k\<close>, for the property names the interceptor reads
  (\<^verbatim>\<open>sub\<close>, \<^verbatim>\<open>userId\<close>, \<^verbatim>\<open>id\<close>, \<^verbatim>\<open>user_id\<close>, \<^verbatim>\<open>email\<close>, \<^verbatim>\<open>user_email\<close>,
  \<^verbatim>\<open>userEmail\<close>).  Reading from \<^verbatim>\<open>null\<close> or \<^verbatim>\<open>undefined\<close> throws; an object
  yields its own property; a string inherits \<^verbatim>\<open>String.prototype.sub\<close>; numbers,
  booleans and arrays have none of these properties.
\<close>

definition own_property :: "(string \<times> js) list \<Rightarrow> string \<Rightarrow> js" where
  "own_property kvs k = (case map_of kvs k of None \<Rightarrow> JUndefined | Some v \<Rightarrow> v)"

fun get_prop :: "js \<Rightarrow> string \<Rightarrow> exn + js" where
  "get_prop JUndefined k = Inl TypeError"
| "get_prop JNull k = Inl TypeError"
| "get_prop (JObj kvs) k = Inr (own_property kvs k)"
| "get_prop (JStr s) k =
     Inr (if k = ''sub'' then JFun ''String.prototype.sub'' else JUndefined)"
| "get_prop v k = Inr JUndefined"

text \<open>
  The expression \<^verbatim>\<open>p.k1 || p.k2 || ... || p.kn\<close>: the operands are read from left to
  right, the first truthy one is the value, and the last operand is the value when none
  before it is truthy.
\<close>

fun or_chain :: "js \<Rightarrow> string list \<Rightarrow> exn + js" where
  "or_chain p [] = Inr JUndefined"
| "or_chain p [k] = get_prop p k"
| "or_chain p (k # k' # ks) =
     (case get_prop p k of
        Inl e \<Rightarrow> Inl e
      | Inr v \<Rightarrow> if js_truthy v then Inr v else or_chain p (k' # ks))"

text \<open>\<^verbatim>\<open>a || b\<close> on values of type \<^verbatim>\<open>string | undefined\<close>.\<close>

definition or_str :: "string option \<Rightarrow> string option \<Rightarrow> string option" where
  "or_str a b = (if truthy a then a else b)"

text \<open>The platform functions the source calls but does not define.\<close>

record platform =
  JSON_parse :: "string \<Rightarrow> exn + js"
  base64url_toString :: "string \<Rightarrow> string"

subsection \<open>Strings and the two regular expressions\<close>

text \<open>\<^verbatim>\<open>s.split(sep)\<close> for a one-character separator.\<close>

fun split :: "char \<Rightarrow> string \<Rightarrow> string list" where
  "split sep [] = [[]]"
| "split sep (c # cs) =
     (if c = sep then [] # split sep cs
      else (case split sep cs of p # ps \<Rightarrow> (c # p) # ps | [] \<Rightarrow> [[c]]))"

definition str_includes :: "string \<Rightarrow> char \<Rightarrow> bool" where
  "str_includes s c = (c \<in> set s)"

definition startsWith :: "string \<Rightarrow> string \<Rightarrow> bool" where
  "startsWith s p = prefix p s"

text \<open>
  The class \<^verbatim>\<open>\s\<close> and the line terminators, among the code units below 256.
  The dot of a regular expression matches every character but a line terminator.
\<close>

definition is_space :: "char \<Rightarrow> bool" where
  "is_space c = (let n = (of_char c :: nat) in (9 \<le> n \<and> n \<le> 13) \<or> n = 32 \<or> n = 160)"

definition is_line_terminator :: "char \<Rightarrow> bool" where
  "is_line_terminator c = (let n = (of_char c :: nat) in n = 10 \<or> n = 13)"

definition trim :: "string \<Rightarrow> string" where
  "trim s = rev (dropWhile is_space (rev (dropWhile is_space s)))"

text \<open>
  Case-insensitive matching compares canonical forms.  A code unit above 127 never
  canonicalizes to an ASCII letter, so against the ASCII letters of \<^verbatim>\<open>Bearer\<close> only
  the ASCII small letters fold.
\<close>

definition canonicalize :: "char \<Rightarrow> char" where
  "canonicalize c = (let n = (of_char c :: nat) in
     if 97 \<le> n \<and> n \<le> 122 then char_of (n - 32) else c)"

text \<open>
  \<^verbatim>\<open>/^Bearer\s+(.+)$/i\<close>, matched against the whole header value.  After the six
  letters, \<^verbatim>\<open>\s+\<close> first takes the longest run of white space and gives characters
  back one at a time, keeping at least one, until \<^verbatim>\<open>(.+)$\<close> matches the rest: a
  non-empty rest without line terminator.  The result is the capture group.
\<close>

definition dot_plus_end :: "string \<Rightarrow> string option" where
  "dot_plus_end r =
     (if r \<noteq> [] \<and> list_all (\<lambda>c. \<not> is_line_terminator c) r then Some r else None)"

fun backtrack :: "nat \<Rightarrow> string \<Rightarrow> string option" where
  "backtrack 0 r = None"
| "backtrack (Suc k) r =
     (case dot_plus_end (drop (Suc k) r) of
        Some v \<Rightarrow> Some v
      | None \<Rightarrow> backtrack k r)"

definition match_bearer :: "string \<Rightarrow> string option" where
  "match_bearer a =
     (if 6 \<le> length a \<and> map canonicalize (take 6 a) = ''BEARER''
      then backtrack (length (takeWhile is_space (drop 6 a))) (drop 6 a)
      else None)"

text \<open>
  The regular expressions that \<^verbatim>\<open>shouldExcludeRoute\<close> builds at run time.  The model
  covers the sources made of ordinary characters, the dot, and a star after either;
  \<open>parse_regex\<close> is \<open>None\<close> on any other syntax character, where the constructor may
  accept a richer expression or throw.
\<close>

datatype atom = Lit char | AnyChar

datatype item = One atom | Star atom

definition syntax_char :: "char \<Rightarrow> bool" where
  "syntax_char c = (c \<in> set ''^$.*+?()[]{}|'' \<or> c = CHR 0x5C)"

definition atom_of :: "char \<Rightarrow> atom" where
  "atom_of c = (if c = CHR ''.'' then AnyChar else Lit c)"

fun parse_regex :: "string \<Rightarrow> item list option" where
  "parse_regex [] = Some []"
| "parse_regex [c] =
     (if syntax_char c \<and> c \<noteq> CHR ''.'' then None else Some [One (atom_of c)])"
| "parse_regex (c # d # cs) =
     (if syntax_char c \<and> c \<noteq> CHR ''.'' then None
      else if d = CHR ''*'' then map_option (Cons (Star (atom_of c))) (parse_regex cs)
      else map_option (Cons (One (atom_of c))) (parse_regex (d # cs)))"

fun atom_ok :: "atom \<Rightarrow> char \<Rightarrow> bool" where
  "atom_ok (Lit p) c = (c = p)"
| "atom_ok AnyChar c = (\<not> is_line_terminator c)"

text \<open>
  \<^verbatim>\<open>new RegExp('^' + pattern + '$').test(url)\<close>: does the whole of \<open>s\<close> match the
  sequence of items?  A starred item is tried greedily, then with one repetition less.
\<close>

fun re_match :: "item list \<Rightarrow> string \<Rightarrow> bool" where
  "re_match [] s = (s = [])"
| "re_match (One a # r) [] = False"
| "re_match (One a # r) (c # cs) = (atom_ok a c \<and> re_match r cs)"
| "re_match (Star a # r) [] = re_match r []"
| "re_match (Star a # r) (c # cs) =
     ((atom_ok a c \<and> re_match (Star a # r) cs) \<or> re_match r (c # cs))"

text \<open>\<^verbatim>\<open>route.replace(/\*/g, '.*')\<close>.\<close>

definition replace_stars :: "string \<Rightarrow> string" where
  "replace_stars route = concat (map (\<lambda>c. if c = CHR ''*'' then ''.*'' else [c]) route)"

definition regexp_test :: "string \<Rightarrow> string \<Rightarrow> bool option" where
  "regexp_test pattern url = map_option (\<lambda>r. re_match r url) (parse_regex pattern)"

subsection \<open>Requests, options and records\<close>

text \<open>
  The Express request as far as the interceptor reads it.  Header names are lower-case,
  as Node stores them; header values and query values are strings, as the source's casts
  take them to be.
\<close>

record Request =
  req_method :: string
  req_url :: string
  req_headers :: headers
  req_query :: "string \<rightharpoonup> string"
  req_body :: js
  connection_remoteAddress :: "string option"
  socket_remoteAddress :: "string option"
  req_ip :: "string option"

text \<open>
  Express's \<^verbatim>\<open>req.get(name)\<close>: a case-insensitive header read, with the two
  spellings of the referrer header treated as one.
\<close>

definition req_get :: "Request \<Rightarrow> string \<Rightarrow> string option" where
  "req_get request name =
     (let lc = toLowerCase name in
      if lc = ''referer'' \<or> lc = ''referrer''
      then or_str (req_headers request ''referrer'') (req_headers request ''referer'')
      else req_headers request lc)"

text \<open>
  The module options.  A custom extractor is a function that returns a string or
  \<^verbatim>\<open>undefined\<close>; one that throws is outside the model.
\<close>

datatype logLevel = Debug | Info | Warn | Error

record AuditLoggerModuleOptions =
  logRequestBody :: "bool option"
  logResponseBody :: "bool option"
  excludeRoutes :: "string list option"
  logLevel :: "logLevel option"
  customTokenExtractor :: "(Request \<Rightarrow> string option) option"
  customUserIdExtractor :: "(string \<Rightarrow> string option) option"
  customUserEmailExtractor :: "(string \<Rightarrow> string option) option"

text \<open>
  \<^verbatim>\<open>AuditLogOptions\<close>, the metadata the decorator attaches to a handler.  The fields
  \<^verbatim>\<open>logRequestBody\<close> and \<^verbatim>\<open>logResponseBody\<close> of the source carry the prefix
  \<open>call_\<close> here, to tell them from the module options of the same name.
\<close>

record AuditLogOptions =
  opt_serviceName :: "string option"
  opt_description :: "string option"
  call_logRequestBody :: "bool option"
  call_logResponseBody :: "bool option"

record TokenExtractionResult =
  tok_token :: "string option"
  tok_userId :: js
  tok_userEmail :: js

record RequestInfo =
  ri_method :: string
  ri_url :: string
  ri_headers :: headers
  ri_query :: "string \<rightharpoonup> string"
  ri_body :: js
  ri_ip :: string
  ri_userAgent :: string

record ResponseInfo =
  res_statusCode :: int
  res_data :: js

record RequestData =
  rd_body :: js
  rd_query :: "string \<rightharpoonup> string"
  rd_headers :: headers

record AuditLogData =
  timestamp :: int
  userId :: js
  userEmail :: js
  httpMethod :: string
  endpoint :: string
  serviceName :: "string option"
  actionDescription :: "string option"
  requestData :: "RequestData option"
  responseData :: js
  userAgent :: string
  ipAddress :: string
  token :: "string option"
  statusCode :: int
  executionTimeMs :: int

subsection \<open>Route exclusion\<close>

definition route_matches :: "string \<Rightarrow> string \<Rightarrow> bool option" where
  "route_matches url route =
     (if str_includes route (CHR ''*'')
      then regexp_test (replace_stars route) url
      else Some (startsWith url route))"

text \<open>\<^verbatim>\<open>Array.prototype.some\<close>: left to right, stopping at the first hit.\<close>

fun some :: "('a \<Rightarrow> bool option) \<Rightarrow> 'a list \<Rightarrow> bool option" where
  "some f [] = Some False"
| "some f (x # xs) =
     (case f x of None \<Rightarrow> None | Some True \<Rightarrow> Some True | Some False \<Rightarrow> some f xs)"

definition shouldExcludeRoute :: "AuditLoggerModuleOptions \<Rightarrow> string \<Rightarrow> bool option" where
  "shouldExcludeRoute options url =
     (case excludeRoutes options of
        None \<Rightarrow> Some False
      | Some routes \<Rightarrow> some (route_matches url) routes)"

text \<open>
  The reading of the specification, for comparison: a star stands for any characters, every
  other character of the pattern for itself, and the whole path has to match; a pattern
  without star matches the paths it is a prefix of.
\<close>

fun glob_match :: "string \<Rightarrow> string \<Rightarrow> bool" where
  "glob_match [] s = (s = [])"
| "glob_match (p # ps) [] = (p = CHR ''*'' \<and> glob_match ps [])"
| "glob_match (p # ps) (c # cs) =
     (if p = CHR ''*'' then glob_match (p # ps) cs \<or> glob_match ps (c # cs)
      else p = c \<and> glob_match ps cs)"

definition spec_isExcluded :: "string \<Rightarrow> string list \<Rightarrow> bool" where
  "spec_isExcluded path patterns =
     list_ex (\<lambda>p. if CHR ''*'' \<in> set p then glob_match p path else prefix p path) patterns"

text \<open>
  A route is plain when the star is its only syntax character; \<open>glob_items\<close> is the
  expression that the regular expression built from a plain route parses to.
\<close>

definition plain_route :: "string \<Rightarrow> bool" where
  "plain_route route = list_all (\<lambda>c. syntax_char c \<longrightarrow> c = CHR ''*'') route"

definition glob_items :: "string \<Rightarrow> item list" where
  "glob_items route = map (\<lambda>c. if c = CHR ''*'' then Star AnyChar else One (Lit c)) route"

subsection \<open>Token extraction\<close>

text \<open>The two \<^verbatim>\<open>for\<close> loops of \<^verbatim>\<open>extractTokenFromRequest\<close>.\<close>

fun first_truthy :: "(string \<Rightarrow> string option) \<Rightarrow> string list \<Rightarrow> string option" where
  "first_truthy f [] = None"
| "first_truthy f (k # ks) = (if truthy (f k) then f k else first_truthy f ks)"

definition customHeaders :: "string list" where
  "customHeaders = [''x-api-token'', ''x-auth-token'', ''x-access-token'', ''api-key'', ''apikey'']"

definition queryParams :: "string list" where
  "queryParams = [''token'', ''apikey'', ''api_key'', ''access_token'']"

definition extractTokenFromRequest :: "Request \<Rightarrow> string option" where
  "extractTokenFromRequest request =
     (let authHeader = req_get request ''Authorization'' in
      if truthy authHeader
      then (case match_bearer (the authHeader) of
              Some m \<Rightarrow> Some m
            | None \<Rightarrow> authHeader)
      else (case first_truthy (req_get request) customHeaders of
              Some v \<Rightarrow> Some v
            | None \<Rightarrow> first_truthy (req_query request) queryParams))"

text \<open>
  The reading of the specification, for comparison: a source is taken when it is present,
  and the prefix \<^verbatim>\<open>Bearer\<close> with one space, in any letter case, is cut off.
\<close>

fun first_present :: "(string \<Rightarrow> string option) \<Rightarrow> string list \<Rightarrow> string option" where
  "first_present f [] = None"
| "first_present f (k # ks) = (case f k of Some v \<Rightarrow> Some v | None \<Rightarrow> first_present f ks)"

definition spec_strip_bearer :: "string \<Rightarrow> string" where
  "spec_strip_bearer a =
     (if map canonicalize (take 7 a) = ''BEARER '' then drop 7 a else a)"

definition spec_resolveToken :: "Request \<Rightarrow> string option" where
  "spec_resolveToken request =
     (case req_get request ''Authorization'' of
        Some a \<Rightarrow> Some (spec_strip_bearer a)
      | None \<Rightarrow>
          (case first_present (req_get request) customHeaders of
             Some v \<Rightarrow> Some v
           | None \<Rightarrow> first_present (req_query request) queryParams))"

text \<open>
  The bodies of the two \<^verbatim>\<open>try\<close> blocks, with what they throw, and the functions
  themselves, whose \<^verbatim>\<open>catch\<close> turns every exception into \<^verbatim>\<open>undefined\<close>.
\<close>

definition decode_payload :: "platform \<Rightarrow> string \<Rightarrow> exn + js" where
  "decode_payload lib part = JSON_parse lib (base64url_toString lib part)"

definition bind_exn :: "exn + 'a \<Rightarrow> ('a \<Rightarrow> exn + 'b) \<Rightarrow> exn + 'b" where
  "bind_exn x f = (case x of Inl e \<Rightarrow> Inl e | Inr v \<Rightarrow> f v)"

definition catch_undefined :: "exn + js \<Rightarrow> js" where
  "catch_undefined x = (case x of Inl e \<Rightarrow> JUndefined | Inr v \<Rightarrow> v)"

definition userId_try :: "platform \<Rightarrow> string \<Rightarrow> exn + js" where
  "userId_try lib tk =
     (if str_includes tk (CHR ''.'') \<and> length (split (CHR ''.'') tk) = 3
      then bind_exn (decode_payload lib (split (CHR ''.'') tk ! 1))
             (\<lambda>payload. or_chain payload [''sub'', ''userId'', ''id'', ''user_id''])
      else if startsWith tk ''{''
      then bind_exn (JSON_parse lib tk)
             (\<lambda>parsed. or_chain parsed [''userId'', ''id'', ''user_id'', ''sub''])
      else Inr JUndefined)"

definition extractUserIdFromCustomToken :: "platform \<Rightarrow> string \<Rightarrow> js" where
  "extractUserIdFromCustomToken lib tk = catch_undefined (userId_try lib tk)"

definition email_try :: "platform \<Rightarrow> string \<Rightarrow> exn + js" where
  "email_try lib tk =
     (if str_includes tk (CHR ''.'') \<and> length (split (CHR ''.'') tk) = 3
      then bind_exn (decode_payload lib (split (CHR ''.'') tk ! 1))
             (\<lambda>payload. or_chain payload [''email'', ''user_email'', ''userEmail''])
      else if startsWith tk ''{''
      then bind_exn (JSON_parse lib tk)
             (\<lambda>parsed. or_chain parsed [''email'', ''user_email'', ''userEmail''])
      else Inr JUndefined)"

definition extractEmailFromCustomToken :: "platform \<Rightarrow> string \<Rightarrow> js" where
  "extractEmailFromCustomToken lib tk = catch_undefined (email_try lib tk)"


definition of_string_option :: "string option \<Rightarrow> js" where
  "of_string_option x = (case x of None \<Rightarrow> JUndefined | Some s \<Rightarrow> JStr s)"

definition extractTokenInfo ::
  "platform \<Rightarrow> AuditLoggerModuleOptions \<Rightarrow> Request \<Rightarrow> TokenExtractionResult" where
  "extractTokenInfo lib options request =
     (let tk = (case customTokenExtractor options of
                     Some f \<Rightarrow> f request
                   | None \<Rightarrow> extractTokenFromRequest request)
      in if truthy tk
         then \<lparr> tok_token = tk,
                tok_userId = (case customUserIdExtractor options of
                                Some f \<Rightarrow> of_string_option (f (the tk))
                              | None \<Rightarrow> extractUserIdFromCustomToken lib (the tk)),
                tok_userEmail = (case customUserEmailExtractor options of
                                   Some f \<Rightarrow> of_string_option (f (the tk))
                                 | None \<Rightarrow> extractEmailFromCustomToken lib (the tk)) \<rparr>
         else \<lparr> tok_token = tk, tok_userId = JUndefined, tok_userEmail = JUndefined \<rparr>)"

subsection \<open>The decorator\<close>

text \<open>
  The metadata slot \<^verbatim>\<open>audit-log-metadata\<close> of a handler: empty, or the options
  object the decorator \<^verbatim>\<open>@AuditLog\<close> stored there.
\<close>

type_synonym handler = "AuditLogOptions option"

definition isAuditLogEnabled :: "handler \<Rightarrow> bool" where
  "isAuditLogEnabled h = (h \<noteq> None)"

definition getAuditLogOptions :: "handler \<Rightarrow> AuditLogOptions option" where
  "getAuditLogOptions h = h"

definition no_options :: AuditLogOptions where
  "no_options = \<lparr> opt_serviceName = None, opt_description = None,
                  call_logRequestBody = None, call_logResponseBody = None \<rparr>"

subsection \<open>The interceptor\<close>

definition or_else :: "string option \<Rightarrow> string \<Rightarrow> string" where
  "or_else a d = (case a of None \<Rightarrow> d | Some s \<Rightarrow> if s \<noteq> [] then s else d)"

definition extractRealIp :: "Request \<Rightarrow> string" where
  "extractRealIp request =
     (let forwarded = req_get request ''X-Forwarded-For'' in
      if truthy forwarded
      then (case split (CHR '','') (the forwarded) of [] \<Rightarrow> [] | p # ps \<Rightarrow> trim p)
      else or_else
             (or_str (or_str (or_str (or_str (req_get request ''X-Real-IP'')
                                             (req_get request ''X-Client-IP''))
                                     (connection_remoteAddress request))
                             (socket_remoteAddress request))
                     (req_ip request))
             ''unknown'')"

definition extractRequestInfo :: "Request \<Rightarrow> RequestInfo" where
  "extractRequestInfo request =
     \<lparr> ri_method = req_method request,
       ri_url = req_url request,
       ri_headers = req_headers request,
       ri_query = req_query request,
       ri_body = req_body request,
       ri_ip = extractRealIp request,
       ri_userAgent = or_else (req_get request ''User-Agent'') [] \<rparr>"

text \<open>
  What the wrapped handler delivers through \<^verbatim>\<open>next.handle()\<close>: a sequence of
  emitted values, then completion or an error.  A handler that returns a value emits it
  and completes; a handler that throws emits nothing and ends with the error.  The value
  thrown is \<^verbatim>\<open>null\<close>, \<^verbatim>\<open>undefined\<close>, or a value whose properties can be read, with
  its optional \<^verbatim>\<open>status\<close> and \<^verbatim>\<open>message\<close>.  Every event comes with what the
  interceptor reads from its surroundings at that moment: \<^verbatim>\<open>Date.now()\<close>, and for an
  emission the status code of the response object.
\<close>

record thrown =
  err_status :: "int option"
  err_message :: "string option"

datatype thrown_value = ThrownNull | ThrownUndefined | ThrownObject thrown

record emission =
  em_value :: js
  em_statusCode :: int
  em_now :: int

datatype ending = Completed | Errored thrown_value int

record observable =
  emissions :: "emission list"
  ending :: ending

definition returned :: "js \<Rightarrow> int \<Rightarrow> int \<Rightarrow> observable" where
  "returned d code t =
     \<lparr> emissions = [\<lparr> em_value = d, em_statusCode = code, em_now = t \<rparr>],
       ending = Completed \<rparr>"

definition threw :: "thrown_value \<Rightarrow> int \<Rightarrow> observable" where
  "threw e t = \<lparr> emissions = [], ending = Errored e t \<rparr>"

text \<open>
  What the framework receives from the observable that \<^verbatim>\<open>intercept\<close> returns: the
  values, and how it ends.  \<open>Raised\<close> is an exception that the interceptor's own
  callback throws; \<open>untouched\<close> is the handler's observable as it is.
\<close>

datatype final = Done | Failed thrown_value | Raised exn

record delivery =
  d_values :: "js list"
  d_final :: final

definition untouched :: "observable \<Rightarrow> delivery" where
  "untouched handled =
     \<lparr> d_values = map em_value (emissions handled),
       d_final = (case ending handled of Completed \<Rightarrow> Done | Errored e t \<Rightarrow> Failed e) \<rparr>"

text \<open>\<^verbatim>\<open>error.status || 500\<close>.\<close>

definition status_or_500 :: "int option \<Rightarrow> int" where
  "status_or_500 st = (case st of None \<Rightarrow> 500 | Some n \<Rightarrow> if n \<noteq> 0 then n else 500)"

text \<open>The arguments of a call of \<^verbatim>\<open>createAuditLog\<close> handed to \<^verbatim>\<open>setImmediate\<close>.\<close>

record pending =
  p_timestamp :: int
  p_requestInfo :: RequestInfo
  p_responseInfo :: ResponseInfo
  p_tokenInfo :: TokenExtractionResult
  p_executionTime :: int
  p_auditOptions :: AuditLogOptions

text \<open>The clock at the entry of \<^verbatim>\<open>intercept\<close>: \<^verbatim>\<open>Date.now()\<close> and \<^verbatim>\<open>new Date()\<close>.\<close>

record readings =
  startTime :: int
  entryDate :: int

text \<open>
  The callback of \<^verbatim>\<open>tap\<close>, which runs once for every emitted value, and the callback
  of \<^verbatim>\<open>catchError\<close>.  The latter reads \<^verbatim>\<open>error.status\<close> before it schedules
  anything: on \<^verbatim>\<open>null\<close> and \<^verbatim>\<open>undefined\<close> that read throws a type error.
\<close>

definition on_next ::
  "RequestInfo \<Rightarrow> TokenExtractionResult \<Rightarrow> AuditLogOptions \<Rightarrow> readings \<Rightarrow> emission
     \<Rightarrow> pending" where
  "on_next requestInfo tokenInfo auditOptions env em =
     \<lparr> p_timestamp = entryDate env,
       p_requestInfo = requestInfo,
       p_responseInfo = \<lparr> res_statusCode = em_statusCode em, res_data = em_value em \<rparr>,
       p_tokenInfo = tokenInfo,
       p_executionTime = em_now em - startTime env,
       p_auditOptions = auditOptions \<rparr>"

definition on_error ::
  "RequestInfo \<Rightarrow> TokenExtractionResult \<Rightarrow> AuditLogOptions \<Rightarrow> readings \<Rightarrow> thrown_value
     \<Rightarrow> int \<Rightarrow> exn + pending" where
  "on_error requestInfo tokenInfo auditOptions env error t =
     (case error of
        ThrownNull \<Rightarrow> Inl TypeError
      | ThrownUndefined \<Rightarrow> Inl TypeError
      | ThrownObject e \<Rightarrow>
          Inr \<lparr> p_timestamp = entryDate env,
                p_requestInfo = requestInfo,
                p_responseInfo = \<lparr> res_statusCode = status_or_500 (err_status e),
                                   res_data = of_string_option (err_message e) \<rparr>,
                p_tokenInfo = tokenInfo,
                p_executionTime = t - startTime env,
                p_auditOptions = auditOptions \<rparr>)"

text \<open>
  The result of \<^verbatim>\<open>intercept\<close>: what the returned observable delivers to the
  framework, and the callbacks it hands to \<^verbatim>\<open>setImmediate\<close>, in the order of the
  events.  The result is \<open>None\<close> where the exclusion check leaves the modelled fragment
  of regular expressions.
\<close>

record interception =
  delivered :: delivery
  scheduled :: "pending list"

definition intercept ::
  "platform \<Rightarrow> AuditLoggerModuleOptions \<Rightarrow> handler \<Rightarrow> Request \<Rightarrow> readings \<Rightarrow> observable
     \<Rightarrow> interception option" where
  "intercept lib options h request env handled =
     (if \<not> isAuditLogEnabled h then Some \<lparr> delivered = untouched handled, scheduled = [] \<rparr>
      else
        (case shouldExcludeRoute options (req_url request) of
           None \<Rightarrow> None
         | Some True \<Rightarrow> Some \<lparr> delivered = untouched handled, scheduled = [] \<rparr>
         | Some False \<Rightarrow>
             (let auditOptions = (case getAuditLogOptions h of
                                    Some opts \<Rightarrow> opts
                                  | None \<Rightarrow> no_options);
                  requestInfo = extractRequestInfo request;
                  tokenInfo = extractTokenInfo lib options request;
                  taps = map (on_next requestInfo tokenInfo auditOptions env)
                           (emissions handled)
              in (case ending handled of
                    Completed \<Rightarrow> Some \<lparr> delivered = untouched handled, scheduled = taps \<rparr>
                  | Errored error t \<Rightarrow>
                      (case on_error requestInfo tokenInfo auditOptions env error t of
                         Inl x \<Rightarrow>
                           Some \<lparr> delivered =
                                    \<lparr> d_values = map em_value (emissions handled),
                                      d_final = Raised x \<rparr>,
                                  scheduled = taps \<rparr>
                       | Inr p \<Rightarrow>
                           Some \<lparr> delivered = untouched handled,
                                  scheduled = taps @ [p] \<rparr>)))))"

text \<open>
  The payloads that the callbacks put into \<^verbatim>\<open>responseInfo.data\<close>, in the order of the
  events: every emitted value, then the message of an error whose properties can be read.
\<close>

definition payloads :: "observable \<Rightarrow> js list" where
  "payloads handled =
     map em_value (emissions handled) @
     (case ending handled of
        Errored (ThrownObject e) t \<Rightarrow> [of_string_option (err_message e)]
      | _ \<Rightarrow> [])"

text \<open>\<^verbatim>\<open>a ?? b ?? false\<close> on optional booleans.\<close>

definition coalesce :: "bool option \<Rightarrow> bool option \<Rightarrow> bool" where
  "coalesce a b =
     (case a of Some x \<Rightarrow> x | None \<Rightarrow> (case b of Some y \<Rightarrow> y | None \<Rightarrow> False))"

text \<open>The object literal \<^verbatim>\<open>auditData\<close> of \<^verbatim>\<open>createAuditLog\<close>.\<close>

definition composeAuditData :: "AuditLoggerModuleOptions \<Rightarrow> pending \<Rightarrow> AuditLogData" where
  "composeAuditData options p =
     (let auditOptions = p_auditOptions p;
          requestInfo = p_requestInfo p;
          responseInfo = p_responseInfo p;
          tokenInfo = p_tokenInfo p;
          shouldLogRequestBody =
            coalesce (call_logRequestBody auditOptions) (logRequestBody options);
          shouldLogResponseBody =
            coalesce (call_logResponseBody auditOptions) (logResponseBody options)
      in \<lparr> timestamp = p_timestamp p,
           userId = tok_userId tokenInfo,
           userEmail = tok_userEmail tokenInfo,
           httpMethod = ri_method requestInfo,
           endpoint = ri_url requestInfo,
           serviceName = opt_serviceName auditOptions,
           actionDescription = opt_description auditOptions,
           requestData =
             (if shouldLogRequestBody
              then Some \<lparr> rd_body = ri_body requestInfo,
                          rd_query = ri_query requestInfo,
                          rd_headers = sanitizeHeaders (ri_headers requestInfo) \<rparr>
              else None),
           responseData = (if shouldLogResponseBody then res_data responseInfo else JUndefined),
           userAgent = ri_userAgent requestInfo,
           ipAddress = ri_ip requestInfo,
           token = tok_token tokenInfo,
           statusCode = res_statusCode responseInfo,
           executionTimeMs = p_executionTime p \<rparr>)"

text \<open>The records that the callbacks scheduled by one interception compose.\<close>

definition audit_records :: "AuditLoggerModuleOptions \<Rightarrow> interception \<Rightarrow> AuditLogData list" where
  "audit_records options i = map (composeAuditData options) (scheduled i)"

subsection \<open>The service and the record store\<close>

text \<open>
  The observable world of the service: the rows of the audit table, the records handed
  to \<^verbatim>\<open>repository.save\<close> so far, and the lines written to the logger.
\<close>

datatype log_entry =
    SaveFailed exn
  | Saved AuditLogData
  | CleanedUp nat int
  | CleanupFailed exn

record world =
  rows :: "AuditLogData list"
  save_calls :: "AuditLogData list"
  error_log :: "log_entry list"
  debug_log :: "log_entry list"
  info_log :: "log_entry list"

text \<open>
  The behaviour of \<^verbatim>\<open>repository.save\<close> is a parameter: given the record and the
  table, it throws or returns the new table.
\<close>

type_synonym save_fn = "AuditLogData \<Rightarrow> AuditLogData list \<Rightarrow> exn + AuditLogData list"

text \<open>
  A function of the service or of the interceptor returns what it throws to its caller,
  if anything, together with the world it leaves behind.
\<close>

definition saveAuditLog_try ::
  "AuditLoggerModuleOptions \<Rightarrow> save_fn \<Rightarrow> AuditLogData \<Rightarrow> world \<Rightarrow> exn option \<times> world" where
  "saveAuditLog_try options save auditData w =
     (let w1 = w\<lparr> save_calls := save_calls w @ [auditData] \<rparr> in
      case save auditData (rows w1) of
        Inl e \<Rightarrow> (Some e, w1)
      | Inr table \<Rightarrow>
          (let w2 = w1\<lparr> rows := table \<rparr> in
           if logLevel options = Some Debug
           then (None, w2\<lparr> debug_log := debug_log w2 @ [Saved auditData] \<rparr>)
           else (None, w2)))"

text \<open>
  \<^verbatim>\<open>saveAuditLog\<close>: the \<^verbatim>\<open>catch\<close> clause logs at error level and falls off the end
  of the function.
\<close>

definition saveAuditLog ::
  "AuditLoggerModuleOptions \<Rightarrow> save_fn \<Rightarrow> AuditLogData \<Rightarrow> world \<Rightarrow> exn option \<times> world" where
  "saveAuditLog options save auditData w =
     (case saveAuditLog_try options save auditData w of
        (None, w') \<Rightarrow> (None, w')
      | (Some e, w') \<Rightarrow> (None, w'\<lparr> error_log := error_log w' @ [SaveFailed e] \<rparr>))"

definition createAuditLog ::
  "AuditLoggerModuleOptions \<Rightarrow> save_fn \<Rightarrow> pending \<Rightarrow> world \<Rightarrow> exn option \<times> world" where
  "createAuditLog options save p w =
     (case saveAuditLog options save (composeAuditData options p) w of
        (None, w') \<Rightarrow> (None, w')
      | (Some e, w') \<Rightarrow> (None, w'\<lparr> error_log := error_log w' @ [SaveFailed e] \<rparr>))"

text \<open>
  The event loop runs the scheduled callbacks after the interceptor has handed its
  result to the framework.
\<close>

fun run_immediates ::
  "AuditLoggerModuleOptions \<Rightarrow> save_fn \<Rightarrow> pending list \<Rightarrow> world \<Rightarrow> exn option \<times> world" where
  "run_immediates options save [] w = (None, w)"
| "run_immediates options save (p # ps) w =
     (case createAuditLog options save p w of
        (Some e, w') \<Rightarrow> (Some e, w')
      | (None, w') \<Rightarrow> run_immediates options save ps w')"

text \<open>
  One request from the caller's side: what the caller receives, and what the deferred
  callbacks do afterwards.
\<close>

definition serve ::
  "platform \<Rightarrow> AuditLoggerModuleOptions \<Rightarrow> save_fn \<Rightarrow> handler \<Rightarrow> Request \<Rightarrow> readings
     \<Rightarrow> observable \<Rightarrow> world \<Rightarrow> (delivery \<times> exn option \<times> world) option" where
  "serve lib options save h request env handled w =
     (case intercept lib options h request env handled of
        None \<Rightarrow> None
      | Some i \<Rightarrow> Some (delivered i, run_immediates options save (scheduled i) w))"

subsection \<open>Retention cleanup\<close>

text \<open>
  The delete query of the query builder: it throws, or removes the rows that satisfy the
  condition; whether the result carries the number of affected rows depends on the
  database driver.
\<close>

record driver =
  delete_failure :: "exn option"
  reports_affected :: bool

definition execute_delete ::
  "driver \<Rightarrow> (AuditLogData \<Rightarrow> bool) \<Rightarrow> AuditLogData list
     \<Rightarrow> exn + (AuditLogData list \<times> nat option)" where
  "execute_delete drv cond table =
     (case delete_failure drv of
        Some e \<Rightarrow> Inl e
      | None \<Rightarrow>
          Inr (filter (\<lambda>r. \<not> cond r) table,
               if reports_affected drv then Some (length (filter cond table)) else None))"

text \<open>
  Dates.  A time value is a number of milliseconds since the epoch; \<open>time_clip\<close> is
  \<open>None\<close> for the values outside the range of a date, where the date is invalid.  The
  local time zone of the process is a parameter: \<open>tza_utc\<close> is the offset of local time
  at a given instant, \<open>tza_local\<close> the offset that the platform takes for a given local
  time value.
\<close>

definition ms_per_day :: int where
  "ms_per_day = 86400000"

definition time_clip :: "int \<Rightarrow> int option" where
  "time_clip t = (if \<bar>t\<bar> \<le> 8640000000000000 then Some t else None)"

record timezone =
  tza_utc :: "int \<Rightarrow> int"
  tza_local :: "int \<Rightarrow> int"

definition LocalTime :: "timezone \<Rightarrow> int \<Rightarrow> int" where
  "LocalTime tz t = t + tza_utc tz t"

definition UTC :: "timezone \<Rightarrow> int \<Rightarrow> int" where
  "UTC tz t = t - tza_local tz t"

definition Day :: "int \<Rightarrow> int" where
  "Day t = t div ms_per_day"

definition TimeWithinDay :: "int \<Rightarrow> int" where
  "TimeWithinDay t = t mod ms_per_day"

definition MakeDate :: "int \<Rightarrow> int \<Rightarrow> int" where
  "MakeDate day time = day * ms_per_day + time"

text \<open>
  \<^verbatim>\<open>d.setDate(d.getDate() - n)\<close> on a date with time value \<open>tv\<close>.  With \<open>t\<close> the local
  time of \<open>tv\<close>, the new day is \<^verbatim>\<open>MakeDay(YearFromTime(t), MonthFromTime(t),
  DateFromTime(t) - n)\<close>: the day number of the first of the month of \<open>t\<close>, plus the day
  of the month of \<open>t\<close> less \<open>n\<close>, less one, which is the day number of \<open>t\<close> less \<open>n\<close>.
  The time within the day is kept, and the result goes back to UTC and is clipped.
\<close>

definition setDate_back :: "timezone \<Rightarrow> int \<Rightarrow> int \<Rightarrow> int option" where
  "setDate_back tz tv n =
     (let t = LocalTime tz tv;
          newDate = MakeDate (Day t - n) (TimeWithinDay t)
      in time_clip (UTC tz newDate))"

text \<open>
  \<^verbatim>\<open>cleanupOldAuditLogs\<close>, with the clock reading \<open>now\<close> of \<^verbatim>\<open>new Date()\<close> and the
  optional argument.  The result is \<open>None\<close> where the cut-off is an invalid date: what the
  query does with it is left to the driver.  Otherwise the function returns the count, or
  throws again what the query threw.
\<close>

definition cleanupOldAuditLogs ::
  "driver \<Rightarrow> timezone \<Rightarrow> int \<Rightarrow> int option \<Rightarrow> world \<Rightarrow> ((exn + nat) \<times> world) option" where
  "cleanupOldAuditLogs drv tz now retentionDays_arg w =
     (let retentionDays = (case retentionDays_arg of None \<Rightarrow> 90 | Some d \<Rightarrow> d) in
      case setDate_back tz now retentionDays of
        None \<Rightarrow> None
      | Some cutoffDate \<Rightarrow>
          (case execute_delete drv (\<lambda>r. timestamp r < cutoffDate) (rows w) of
             Inl e \<Rightarrow> Some (Inl e, w\<lparr> error_log := error_log w @ [CleanupFailed e] \<rparr>)
           | Inr (table, affected) \<Rightarrow>
               (let deletedCount = (case affected of
                                      None \<Rightarrow> 0
                                    | Some n \<Rightarrow> if n \<noteq> 0 then n else 0)
                in Some (Inr deletedCount,
                         w\<lparr> rows := table,
                            info_log := info_log w @ [CleanedUp deletedCount retentionDays] \<rparr>))))"

subsection \<open>Sample inputs\<close>

text \<open>
  Concrete requests, options and stores for the examples.  \<open>sample_platform\<close> has
  the values of \<^verbatim>\<open>JSON.parse\<close> and of the base64url decoding on the two sample
  tokens, where the examples call it; on other arguments it is a placeholder.
\<close>

definition sample_platform :: platform where
  \<open>sample_platform =
     \<lparr> JSON_parse = (\<lambda>s.
          if s = ''{"sub":"a","userId":"b"}''
          then Inr (JObj [(''sub'', JStr ''a''), (''userId'', JStr ''b'')])
          else if s = ''{"sub":"u1","email":"a@b.com"}''
          then Inr (JObj [(''sub'', JStr ''u1''), (''email'', JStr ''a@b.com'')])
          else Inl SyntaxError),
       base64url_toString = (\<lambda>s.
          if s = ''eyJzdWIiOiJ1MSIsImVtYWlsIjoiYUBiLmNvbSJ9''
          then ''{"sub":"u1","email":"a@b.com"}''
          else []) \<rparr>\<close>


definition jwt_sample_token :: string where
  "jwt_sample_token = ''header.eyJzdWIiOiJ1MSIsImVtYWlsIjoiYUBiLmNvbSJ9.sig''"

definition sample_options :: AuditLoggerModuleOptions where
  "sample_options =
     \<lparr> logRequestBody = None, logResponseBody = Some True,
       excludeRoutes = Some [''/health'', ''/api/*''], logLevel = None,
       customTokenExtractor = None, customUserIdExtractor = None,
       customUserEmailExtractor = None \<rparr>"

definition sample_request :: Request where
  "sample_request =
     \<lparr> req_method = ''POST'', req_url = ''/users?token=zzz'',
       req_headers = [''authorization'' \<mapsto> ''Bearer abc'', ''content-type'' \<mapsto> ''json''],
       req_query = [''token'' \<mapsto> ''zzz''], req_body = JNull,
       connection_remoteAddress = None, socket_remoteAddress = None,
       req_ip = Some ''10.0.0.1'' \<rparr>"

definition sample_env :: readings where
  "sample_env = \<lparr> startTime = 1000, entryDate = 1000 \<rparr>"

text \<open>
  A zone with one clock change: five hours behind UTC until 2024-03-10 07:00 UTC, four
  hours behind from then on, as New York in the winter and spring of 2024.  A local time
  in the hour that the change skips is taken with the earlier offset.
\<close>

definition sample_zone :: timezone where
  "sample_zone =
     \<lparr> tza_utc = (\<lambda>t. if t < 1710054000000 then - 18000000 else - 14400000),
       tza_local = (\<lambda>t. if t < 1710039600000 then - 18000000 else - 14400000) \<rparr>"

definition utc_zone :: timezone where
  "utc_zone = \<lparr> tza_utc = (\<lambda>t. 0), tza_local = (\<lambda>t. 0) \<rparr>"


definition sample_marker :: AuditLogOptions where
  "sample_marker = \<lparr> opt_serviceName = Some ''UsersService'', opt_description = None,
                      call_logRequestBody = Some True, call_logResponseBody = None \<rparr>"

definition empty_header_request :: Request where
  "empty_header_request =
     sample_request \<lparr> req_headers := [''x-api-token'' \<mapsto> [], ''x-auth-token'' \<mapsto> ''k''],
                      req_query := Map.empty \<rparr>"

definition empty_world :: world where
  "empty_world = \<lparr> rows = [], save_calls = [], error_log = [], debug_log = [], info_log = [] \<rparr>"

definition save_ok :: save_fn where
  "save_ok r table = Inr (table @ [r])"

definition save_down :: save_fn where
  "save_down r table = Inl (StoreError ''connection refused'')"

definition row_at :: "int \<Rightarrow> AuditLogData" where
  "row_at t =
     \<lparr> timestamp = t, userId = JUndefined, userEmail = JUndefined, httpMethod = ''GET'',
       endpoint = ''/users'', serviceName = None, actionDescription = None,
       requestData = None, responseData = JUndefined, userAgent = [], ipAddress = ''unknown'',
       token = None, statusCode = 200, executionTimeMs = 1 \<rparr>"


section \<open>Properties of the header sanitizer\<close>

lemma toLowerCase_sensitive:
  "toLowerCase ''authorization'' = ''authorization''"
  "toLowerCase ''cookie'' = ''cookie''"
  "toLowerCase ''x-api-token'' = ''x-api-token''"
  "toLowerCase ''x-auth-token'' = ''x-auth-token''"
  "toLowerCase ''x-access-token'' = ''x-access-token''"
  "toLowerCase ''api-key'' = ''api-key''"
  "toLowerCase ''apikey'' = ''apikey''"
  by code_simp+

lemma toLowerCase_sensitiveHeaders:
  "n \<in> set sensitiveHeaders \<Longrightarrow> toLowerCase n = n"
  by (auto simp: sensitiveHeaders_def toLowerCase_sensitive)

lemma redact_sensitive:
  "n \<in> set sensitiveHeaders \<Longrightarrow>
     redact m n = (if truthy (m n) then m(n \<mapsto> REDACTED) else m)"
  by (simp add: redact_def toLowerCase_sensitiveHeaders REDACTED_def)

lemma redact_apply:
  "n \<in> set sensitiveHeaders \<Longrightarrow>
     redact m n k = (if k = n \<and> truthy (m k) then Some REDACTED else m k)"
  by (auto simp: redact_sensitive)

lemma foldl_redact_apply:
  "set ns \<subseteq> set sensitiveHeaders \<Longrightarrow>
     foldl redact m ns k = (if k \<in> set ns \<and> truthy (m k) then Some REDACTED else m k)"
proof (induction ns arbitrary: m)
  case Nil
  show ?case by simp
next
  case (Cons n ns)
  have n: "n \<in> set sensitiveHeaders" and ns: "set ns \<subseteq> set sensitiveHeaders"
    using Cons.prems by auto
  have "foldl redact m (n # ns) k = foldl redact (redact m n) ns k"
    by simp
  also have "\<dots> = (if k \<in> set ns \<and> truthy (redact m n k) then Some REDACTED
                    else redact m n k)"
    by (rule Cons.IH [OF ns])
  finally show ?case
    by (auto simp: redact_apply [OF n] REDACTED_def)
qed

lemma sanitizeHeaders_apply:
  "sanitizeHeaders h k =
     (if k \<in> set sensitiveHeaders \<and> truthy (h k) then Some REDACTED else h k)"
  unfolding sanitizeHeaders_def by (rule foldl_redact_apply) simp

lemma sanitizeHeaders_idem:
  "sanitizeHeaders (sanitizeHeaders h) = sanitizeHeaders h"
  by (rule ext) (simp add: sanitizeHeaders_apply REDACTED_def)

text \<open>The loop over the store only ever touches the object it was given.\<close>

lemma redact_at_fresh:
  "r < length st \<Longrightarrow>
     redact_at r st n = st[r := redact (st ! r) n]"
  by (simp add: redact_at_def redact_def assign_def Let_def list_update_same_conv)

lemma foldl_redact_at_fresh:
  "r < length st \<Longrightarrow>
     foldl (redact_at r) st ns = st[r := foldl redact (st ! r) ns]"
proof (induction ns arbitrary: st)
  case Nil
  then show ?case by (simp add: list_update_same_conv)
next
  case (Cons n ns)
  then show ?case by (simp add: redact_at_fresh)
qed

lemma sanitizeHeaders_store_eq:
  "a < length st \<Longrightarrow>
     sanitizeHeaders_store st a = (st @ [sanitizeHeaders (st ! a)], length st)"
  by (simp add: sanitizeHeaders_store_def spread_def foldl_redact_at_fresh
      sanitizeHeaders_def)

text \<open>
  A sensitive header whose value is the empty string keeps it: the guard
  \<^verbatim>\<open>if (sanitized[header])\<close> is false for it.
\<close>

theorem sanitize_empty_value_counterexample:
  "''cookie'' \<in> set sensitiveHeaders \<and>
   [''cookie'' \<mapsto> []] ''cookie'' = Some [] \<and>
   sanitizeHeaders [''cookie'' \<mapsto> []] ''cookie'' = Some []"
  by (simp add: sanitizeHeaders_apply sensitiveHeaders_def)

text \<open>
  Claim C4, as amended.  For every header map, the sanitizer replaces by the marker
  \<^verbatim>\<open>[REDACTED]\<close> the value of every header whose key is, exactly, one of
  \<^verbatim>\<open>authorization\<close>, \<^verbatim>\<open>cookie\<close>, \<^verbatim>\<open>x-api-token\<close>, \<^verbatim>\<open>x-auth-token\<close>,
  \<^verbatim>\<open>x-access-token\<close>, \<^verbatim>\<open>api-key\<close>, \<^verbatim>\<open>apikey\<close> and whose value is not empty.  A
  sensitive header with an empty value and every other header pass through with key and
  value unchanged, and no key is added or removed.
\<close>

theorem sanitize_complete:
  "(k \<in> set sensitiveHeaders \<and> h k = Some v \<and> v \<noteq> [] \<longrightarrow>
      sanitizeHeaders h k = Some ''[REDACTED]'') \<and>
   (k \<in> set sensitiveHeaders \<and> h k = Some [] \<longrightarrow> sanitizeHeaders h k = Some []) \<and>
   (k \<notin> set sensitiveHeaders \<longrightarrow> sanitizeHeaders h k = h k) \<and>
   dom (sanitizeHeaders h) = dom h \<and>
   set sensitiveHeaders =
     {''authorization'', ''cookie'', ''x-api-token'', ''x-auth-token'',
      ''x-access-token'', ''api-key'', ''apikey''}"
proof -
  have "dom (sanitizeHeaders h) = dom h"
    by (auto simp: dom_def sanitizeHeaders_apply split: if_splits)
  moreover have "set sensitiveHeaders =
     {''authorization'', ''cookie'', ''x-api-token'', ''x-auth-token'',
      ''x-access-token'', ''api-key'', ''apikey''}"
    by (simp add: sensitiveHeaders_def)
  ultimately show ?thesis
    by (simp add: sanitizeHeaders_apply REDACTED_def)
qed

theorem sanitize_complete_witness:
  "sanitizeHeaders [''cookie'' \<mapsto> ''sid=1'', ''Authorization'' \<mapsto> ''Bearer x''] ''cookie''
     = Some ''[REDACTED]'' \<and>
   sanitizeHeaders [''cookie'' \<mapsto> ''sid=1'', ''Authorization'' \<mapsto> ''Bearer x'']
     ''Authorization'' = Some ''Bearer x'' \<and>
   sanitizeHeaders [''cookie'' \<mapsto> []] ''cookie'' = Some []"
  using sanitize_complete [of "''cookie''"
      "[''cookie'' \<mapsto> ''sid=1'', ''Authorization'' \<mapsto> ''Bearer x'']" "''sid=1''"]
    sanitize_complete [of "''Authorization''"
      "[''cookie'' \<mapsto> ''sid=1'', ''Authorization'' \<mapsto> ''Bearer x'']" "''Bearer x''"]
    sanitize_complete [of "''cookie''" "[''cookie'' \<mapsto> []]" "[]"]
  by (simp add: sensitiveHeaders_def)

text \<open>
  Claim C9.  Sanitizing twice is sanitizing once, for every header map.  The function is
  a non-mutating copy: over a store of objects, it returns a reference to a newly
  allocated object that holds the sanitized headers, and every object that existed
  before the call, the argument among them, is as it was.  The headers
  \<^verbatim>\<open>{authorization: "Bearer xyz", "content-type": "json"}\<close> become
  \<^verbatim>\<open>{authorization: "[REDACTED]", "content-type": "json"}\<close>.
\<close>

theorem sanitize_idempotent_nonmutating:
  assumes "a < length st"
  shows "sanitizeHeaders (sanitizeHeaders h) = sanitizeHeaders h \<and>
         (case sanitizeHeaders_store st a of
            (st', r) \<Rightarrow> r = length st \<and> r \<noteq> a \<and> take (length st) st' = st \<and>
                       st' ! r = sanitizeHeaders (st ! a)) \<and>
         sanitizeHeaders [''authorization'' \<mapsto> ''Bearer xyz'', ''content-type'' \<mapsto> ''json'']
           = [''authorization'' \<mapsto> ''[REDACTED]'', ''content-type'' \<mapsto> ''json'']"
proof -
  have ex: "sanitizeHeaders [''authorization'' \<mapsto> ''Bearer xyz'', ''content-type'' \<mapsto> ''json'']
           = [''authorization'' \<mapsto> ''[REDACTED]'', ''content-type'' \<mapsto> ''json'']"
    by (rule ext) (simp add: sanitizeHeaders_apply sensitiveHeaders_def REDACTED_def)
  show ?thesis
    using assms by (simp add: sanitizeHeaders_idem sanitizeHeaders_store_eq ex)
qed

theorem sanitize_idempotent_nonmutating_witness:
  "(0::nat) < length [[''cookie'' \<mapsto> ''sid=1'']] \<and>
   (case sanitizeHeaders_store [[''cookie'' \<mapsto> ''sid=1'']] 0 of
      (st', r) \<Rightarrow> r = 1 \<and> take 1 st' = [[''cookie'' \<mapsto> ''sid=1'']] \<and>
                 st' ! r = [''cookie'' \<mapsto> ''[REDACTED]''])"
proof -
  have h: "(0::nat) < length [[''cookie'' \<mapsto> ''sid=1'']]" by simp
  have eq: "sanitizeHeaders [''cookie'' \<mapsto> ''sid=1''] = [''cookie'' \<mapsto> ''[REDACTED]'']"
    by (rule ext) (simp add: sanitizeHeaders_apply sensitiveHeaders_def REDACTED_def)
  show ?thesis
    using sanitize_idempotent_nonmutating [OF h, of Map.empty] eq
    by (auto split: prod.splits)
qed

section \<open>Properties of the interceptor and of the write path\<close>

lemma intercept_unmarked:
  "intercept lib options None request env handled =
     Some \<lparr> delivered = untouched handled, scheduled = [] \<rparr>"
  by (simp add: intercept_def isAuditLogEnabled_def)

lemma intercept_excluded:
  "shouldExcludeRoute options (req_url request) = Some True \<Longrightarrow>
   intercept lib options h request env handled =
     Some \<lparr> delivered = untouched handled, scheduled = [] \<rparr>"
  by (simp add: intercept_def)

lemma intercept_audited_completed:
  assumes "shouldExcludeRoute options (req_url request) = Some False"
    and "ending handled = Completed"
  shows "intercept lib options (Some a) request env handled =
     Some \<lparr> delivered = untouched handled,
            scheduled = map (on_next (extractRequestInfo request)
                               (extractTokenInfo lib options request) a env)
                          (emissions handled) \<rparr>"
  using assms
  by (simp add: intercept_def isAuditLogEnabled_def getAuditLogOptions_def Let_def)

lemma intercept_audited_object:
  assumes "shouldExcludeRoute options (req_url request) = Some False"
    and "ending handled = Errored (ThrownObject e) t"
  shows "intercept lib options (Some a) request env handled =
     Some \<lparr> delivered = untouched handled,
            scheduled = map (on_next (extractRequestInfo request)
                               (extractTokenInfo lib options request) a env)
                          (emissions handled) @
              [\<lparr> p_timestamp = entryDate env,
                 p_requestInfo = extractRequestInfo request,
                 p_responseInfo = \<lparr> res_statusCode = status_or_500 (err_status e),
                                    res_data = of_string_option (err_message e) \<rparr>,
                 p_tokenInfo = extractTokenInfo lib options request,
                 p_executionTime = t - startTime env,
                 p_auditOptions = a \<rparr>] \<rparr>"
  using assms
  by (simp add: intercept_def isAuditLogEnabled_def getAuditLogOptions_def Let_def
      on_error_def)

lemma intercept_audited_nullish:
  assumes "shouldExcludeRoute options (req_url request) = Some False"
    and "ending handled = Errored x t" and "x = ThrownNull \<or> x = ThrownUndefined"
  shows "intercept lib options (Some a) request env handled =
     Some \<lparr> delivered = \<lparr> d_values = map em_value (emissions handled),
                           d_final = Raised TypeError \<rparr>,
            scheduled = map (on_next (extractRequestInfo request)
                               (extractTokenInfo lib options request) a env)
                          (emissions handled) \<rparr>"
  using assms
  by (auto simp: intercept_def isAuditLogEnabled_def getAuditLogOptions_def Let_def
      on_error_def)

lemma intercept_marked_tasks:
  assumes "intercept lib options (Some a) request env handled = Some i"
  shows "(scheduled i = [] \<or>
          map (\<lambda>p. res_data (p_responseInfo p)) (scheduled i) = payloads handled) \<and>
         (\<forall>p \<in> set (scheduled i).
            p_auditOptions p = a \<and> p_requestInfo p = extractRequestInfo request)"
proof (cases "shouldExcludeRoute options (req_url request)")
  case None
  with assms show ?thesis by (simp add: intercept_def isAuditLogEnabled_def)
next
  case (Some b)
  show ?thesis
  proof (cases b)
    case True
    with Some assms show ?thesis by (auto simp: intercept_excluded)
  next
    case False
    with Some have ex: "shouldExcludeRoute options (req_url request) = Some False" by simp
    show ?thesis
    proof (cases "ending handled")
      case Completed
      with assms show ?thesis
        by (auto simp: intercept_audited_completed [OF ex] payloads_def on_next_def comp_def)
    next
      case (Errored x t)
      show ?thesis
      proof (cases x)
        case ThrownNull
        with assms Errored show ?thesis
          by (auto simp: intercept_audited_nullish [OF ex] payloads_def on_next_def comp_def)
      next
        case ThrownUndefined
        with assms Errored show ?thesis
          by (auto simp: intercept_audited_nullish [OF ex] payloads_def on_next_def comp_def)
      next
        case (ThrownObject e)
        with assms Errored show ?thesis
          by (auto simp: intercept_audited_object [OF ex] payloads_def on_next_def comp_def)
      qed
    qed
  qed
qed

lemma intercept_delivered:
  assumes "intercept lib options h request env handled = Some i"
  shows "delivered i = untouched handled \<or>
         ((\<exists>t. ending handled = Errored ThrownNull t \<or> ending handled = Errored ThrownUndefined t) \<and>
          delivered i = (untouched handled) \<lparr> d_final := Raised TypeError \<rparr>)"
proof (cases h)
  case None
  with assms show ?thesis by (auto simp: intercept_unmarked)
next
  case (Some a)
  show ?thesis
  proof (cases "shouldExcludeRoute options (req_url request)")
    case None
    with assms Some show ?thesis by (simp add: intercept_def isAuditLogEnabled_def)
  next
    case (Some b)
    note sb = this
    show ?thesis
    proof (cases b)
      case True
      with sb assms show ?thesis by (auto simp: intercept_excluded)
    next
      case False
      with sb have ex: "shouldExcludeRoute options (req_url request) = Some False" by simp
      show ?thesis
      proof (cases "ending handled")
        case Completed
        with assms \<open>h = Some a\<close> show ?thesis
          by (auto simp: intercept_audited_completed [OF ex])
      next
        case (Errored x t)
        show ?thesis
        proof (cases x)
          case ThrownNull
          with assms Errored \<open>h = Some a\<close> show ?thesis
            by (auto simp: intercept_audited_nullish [OF ex] untouched_def)
        next
          case ThrownUndefined
          with assms Errored \<open>h = Some a\<close> show ?thesis
            by (auto simp: intercept_audited_nullish [OF ex] untouched_def)
        next
          case (ThrownObject e)
          with assms Errored \<open>h = Some a\<close> show ?thesis
            by (auto simp: intercept_audited_object [OF ex])
        qed
      qed
    qed
  qed
qed

lemma saveAuditLog_returns: "fst (saveAuditLog options save d w) = None"
  by (simp add: saveAuditLog_def saveAuditLog_try_def Let_def
      split: sum.splits prod.splits option.splits)

lemma saveAuditLog_calls:
  "save_calls (snd (saveAuditLog options save d w)) = save_calls w @ [d]"
  by (simp add: saveAuditLog_def saveAuditLog_try_def Let_def split: sum.splits)

lemma createAuditLog_eq:
  "createAuditLog options save p w =
     (None, snd (saveAuditLog options save (composeAuditData options p) w))"
  using saveAuditLog_returns [of options save "composeAuditData options p" w]
  by (auto simp: createAuditLog_def split: prod.splits option.splits)

lemma run_immediates_returns: "fst (run_immediates options save ps w) = None"
  by (induction ps arbitrary: w) (simp_all add: createAuditLog_eq)

lemma run_immediates_single:
  "run_immediates options save [p] w =
     (None, snd (saveAuditLog options save (composeAuditData options p) w))"
  by (simp add: createAuditLog_eq)

lemma serve_unmarked:
  "serve lib options save None request env handled w = Some (untouched handled, None, w)"
  by (simp add: serve_def intercept_unmarked)

text \<open>
  Claim C1.  When the handler does not carry the audit marker, the interceptor hands the
  handler's values and its completion or error on as they are and schedules nothing,
  whatever the options say about excluded routes; no record is composed, the store is not
  called and the world stays as it was.
\<close>

theorem marker_gating:
  assumes "\<not> isAuditLogEnabled h"
  shows "intercept lib options h request env handled =
           Some \<lparr> delivered = untouched handled, scheduled = [] \<rparr> \<and>
         serve lib options save h request env handled w = Some (untouched handled, None, w)"
  using assms by (simp add: isAuditLogEnabled_def intercept_unmarked serve_unmarked)

theorem marker_gating_witness:
  "\<not> isAuditLogEnabled None \<and>
   serve sample_platform sample_options save_ok None sample_request sample_env
     (returned (JStr ''created'') 201 1007) empty_world
   = Some (\<lparr> d_values = [JStr ''created''], d_final = Done \<rparr>, None, empty_world) \<and>
   serve sample_platform sample_options save_ok None sample_request sample_env
     (threw ThrownNull 1007) empty_world
   = Some (\<lparr> d_values = [], d_final = Failed ThrownNull \<rparr>, None, empty_world)"
proof -
  have h: "\<not> isAuditLogEnabled None" by (simp add: isAuditLogEnabled_def)
  show ?thesis
    using h marker_gating [OF h, of sample_platform sample_options sample_request sample_env
        "returned (JStr ''created'') 201 1007" save_ok empty_world]
      marker_gating [OF h, of sample_platform sample_options sample_request sample_env
        "threw ThrownNull 1007" save_ok empty_world]
    by (simp add: untouched_def returned_def threw_def)
qed

lemma sample_not_excluded:
  "shouldExcludeRoute sample_options (req_url sample_request) = Some False"
  by code_simp

text \<open>
  Claim C5.  \<^verbatim>\<open>saveAuditLog\<close> returns normally whatever the store does: when the
  store throws, the store has been called once, the table is as it was and the failure is
  written to the error log.  \<^verbatim>\<open>createAuditLog\<close> returns normally as well.  What the
  caller of an audited endpoint receives is the same for every behaviour of the store and
  is fixed before the deferred write runs; it is the handler's own outcome, but for a
  handler that throws \<^verbatim>\<open>null\<close> or \<^verbatim>\<open>undefined\<close>, where the callback of
  \<^verbatim>\<open>catchError\<close> throws a type error in place of it.
\<close>

theorem best_effort_write:
  "fst (saveAuditLog options save d w) = None \<and>
   snd (saveAuditLog options save d w) =
     (case save d (rows w) of
        Inl e \<Rightarrow> w\<lparr> save_calls := save_calls w @ [d],
                     error_log := error_log w @ [SaveFailed e] \<rparr>
      | Inr table \<Rightarrow>
          (if logLevel options = Some Debug
           then w\<lparr> save_calls := save_calls w @ [d], rows := table,
                   debug_log := debug_log w @ [Saved d] \<rparr>
           else w\<lparr> save_calls := save_calls w @ [d], rows := table \<rparr>)) \<and>
   fst (createAuditLog options save p w) = None \<and>
   map_option fst (serve lib options save h request env handled w) =
     map_option fst (serve lib options save' h request env handled w') \<and>
   (case serve lib options save h request env handled w of
      None \<Rightarrow> True
    | Some (out, thrown_later, w2) \<Rightarrow>
        thrown_later = None \<and>
        (out = untouched handled \<or>
         ((\<exists>t. ending handled = Errored ThrownNull t \<or>
               ending handled = Errored ThrownUndefined t) \<and>
          out = (untouched handled) \<lparr> d_final := Raised TypeError \<rparr>)))"
proof -
  have a: "fst (saveAuditLog options save d w) = None"
    by (rule saveAuditLog_returns)
  have b: "snd (saveAuditLog options save d w) =
     (case save d (rows w) of
        Inl e \<Rightarrow> w\<lparr> save_calls := save_calls w @ [d],
                     error_log := error_log w @ [SaveFailed e] \<rparr>
      | Inr table \<Rightarrow>
          (if logLevel options = Some Debug
           then w\<lparr> save_calls := save_calls w @ [d], rows := table,
                   debug_log := debug_log w @ [Saved d] \<rparr>
           else w\<lparr> save_calls := save_calls w @ [d], rows := table \<rparr>))"
    by (simp add: saveAuditLog_def saveAuditLog_try_def Let_def split: sum.splits)
  have c: "fst (createAuditLog options save p w) = None"
    by (simp add: createAuditLog_eq)
  have d: "map_option fst (serve lib options save h request env handled w) =
     map_option fst (serve lib options save' h request env handled w')"
    by (simp add: serve_def split: option.splits)
  have e: "(case serve lib options save h request env handled w of
      None \<Rightarrow> True
    | Some (out, thrown_later, w2) \<Rightarrow>
        thrown_later = None \<and>
        (out = untouched handled \<or>
         ((\<exists>t. ending handled = Errored ThrownNull t \<or>
               ending handled = Errored ThrownUndefined t) \<and>
          out = (untouched handled) \<lparr> d_final := Raised TypeError \<rparr>)))"
  proof (cases "intercept lib options h request env handled")
    case None
    then show ?thesis by (simp add: serve_def)
  next
    case (Some i)
    obtain x w2 where r: "run_immediates options save (scheduled i) w = (x, w2)"
      by (cases "run_immediates options save (scheduled i) w")
    with run_immediates_returns [of options save "scheduled i" w] have "x = None" by simp
    with Some r intercept_delivered [OF Some] show ?thesis
      by (simp add: serve_def)
  qed
  from a b c d e show ?thesis by blast
qed

theorem best_effort_write_witness:
  "fst (saveAuditLog sample_options save_down (row_at 5) empty_world) = None \<and>
   rows (snd (saveAuditLog sample_options save_down (row_at 5) empty_world)) = [] \<and>
   save_calls (snd (saveAuditLog sample_options save_down (row_at 5) empty_world)) = [row_at 5] \<and>
   error_log (snd (saveAuditLog sample_options save_down (row_at 5) empty_world)) =
     [SaveFailed (StoreError ''connection refused'')] \<and>
   map_option fst (serve sample_platform sample_options save_down (Some sample_marker)
       sample_request sample_env (returned (JStr ''created'') 201 1007) empty_world) =
   map_option fst (serve sample_platform sample_options save_ok (Some sample_marker)
       sample_request sample_env (returned (JStr ''created'') 201 1007) empty_world)"
  using best_effort_write [of sample_options save_down "row_at 5" empty_world _ sample_platform
      "Some sample_marker" sample_request sample_env "returned (JStr ''created'') 201 1007"
      save_ok empty_world]
  by (simp add: save_down_def empty_world_def)

text \<open>
  An error that carries the status code 0 is recorded with status code 500: the source
  takes \<^verbatim>\<open>error.status || 500\<close>, and 0 is falsy.  And a handler that throws
  \<^verbatim>\<open>undefined\<close> leaves no record at all: the read of \<^verbatim>\<open>error.status\<close> throws a type
  error, which reaches the framework in place of what the handler threw.
\<close>

theorem error_status_zero_counterexample:
  "map_option (map statusCode \<circ> audit_records sample_options)
     (intercept sample_platform sample_options (Some sample_marker) sample_request sample_env
        (threw (ThrownObject \<lparr> err_status = Some 0, err_message = Some ''boom'' \<rparr>) 1007))
   = Some [500] \<and>
   map_option (audit_records sample_options)
     (intercept sample_platform sample_options (Some sample_marker) sample_request sample_env
        (threw ThrownUndefined 1007))
   = Some [] \<and>
   map_option (d_final \<circ> delivered)
     (intercept sample_platform sample_options (Some sample_marker) sample_request sample_env
        (threw ThrownUndefined 1007))
   = Some (Raised TypeError)"
proof -
  have a: "ending (threw (ThrownObject \<lparr> err_status = Some 0, err_message = Some ''boom'' \<rparr>) 1007)
      = Errored (ThrownObject \<lparr> err_status = Some 0, err_message = Some ''boom'' \<rparr>) 1007"
    and b: "ending (threw ThrownUndefined 1007) = Errored ThrownUndefined 1007"
    by (simp_all add: threw_def)
  show ?thesis
    unfolding intercept_audited_object [OF sample_not_excluded a]
      intercept_audited_nullish [OF sample_not_excluded b disjI2 [OF refl]]
    by (simp add: audit_records_def composeAuditData_def status_or_500_def Let_def threw_def)
qed

text \<open>
  Claim C6, as amended.  For an audited request (marker present, route not excluded) whose
  handler throws a value other than \<^verbatim>\<open>null\<close> and \<^verbatim>\<open>undefined\<close>, exactly one
  callback is scheduled and exactly one record is composed and handed to the store.  Its
  status code is the one the error carries when that is present and not zero, and 500
  otherwise; its response data is the error's message when response-body logging is in
  effect, and absent otherwise.  The error reaches the framework unchanged.
\<close>

theorem error_path_parity:
  assumes "h = Some auditOptions"
    and "shouldExcludeRoute options (req_url request) = Some False"
  shows "\<exists>p r w'.
       intercept lib options h request env (threw (ThrownObject error) t) =
         Some \<lparr> delivered = \<lparr> d_values = [], d_final = Failed (ThrownObject error) \<rparr>,
                scheduled = [p] \<rparr> \<and>
       r = composeAuditData options p \<and>
       statusCode r = (case err_status error of
                         None \<Rightarrow> 500
                       | Some n \<Rightarrow> if n = 0 then 500 else n) \<and>
       responseData r =
         (if coalesce (call_logResponseBody auditOptions) (logResponseBody options)
          then of_string_option (err_message error) else JUndefined) \<and>
       serve lib options save h request env (threw (ThrownObject error) t) w =
         Some (\<lparr> d_values = [], d_final = Failed (ThrownObject error) \<rparr>, None, w') \<and>
       save_calls w' = save_calls w @ [r]"
proof -
  define p where "p = \<lparr> p_timestamp = entryDate env,
                           p_requestInfo = extractRequestInfo request,
                           p_responseInfo = \<lparr> res_statusCode = status_or_500 (err_status error),
                                              res_data = of_string_option (err_message error) \<rparr>,
                           p_tokenInfo = extractTokenInfo lib options request,
                           p_executionTime = t - startTime env,
                           p_auditOptions = auditOptions \<rparr>"
  define r where "r = composeAuditData options p"
  define w' where "w' = snd (saveAuditLog options save r w)"
  have en: "ending (threw (ThrownObject error) t) = Errored (ThrownObject error) t"
    by (simp add: threw_def)
  have i: "intercept lib options h request env (threw (ThrownObject error) t) =
         Some \<lparr> delivered = \<lparr> d_values = [], d_final = Failed (ThrownObject error) \<rparr>,
                scheduled = [p] \<rparr>"
    unfolding assms(1) intercept_audited_object [OF assms(2) en]
    by (simp add: p_def untouched_def threw_def)
  have st: "statusCode r = (case err_status error of
                         None \<Rightarrow> 500
                       | Some n \<Rightarrow> if n = 0 then 500 else n)"
    by (simp add: r_def p_def composeAuditData_def status_or_500_def Let_def
        split: option.splits)
  have rd: "responseData r =
         (if coalesce (call_logResponseBody auditOptions) (logResponseBody options)
          then of_string_option (err_message error) else JUndefined)"
    by (simp add: r_def p_def composeAuditData_def Let_def)
  have sv: "serve lib options save h request env (threw (ThrownObject error) t) w =
      Some (\<lparr> d_values = [], d_final = Failed (ThrownObject error) \<rparr>, None, w')"
    by (simp add: serve_def i run_immediates_single w'_def r_def del: run_immediates.simps)
  have sc: "save_calls w' = save_calls w @ [r]"
    by (simp add: w'_def saveAuditLog_calls)
  from i st rd sv sc r_def show ?thesis by blast
qed

theorem error_path_parity_witness:
  "shouldExcludeRoute sample_options (req_url sample_request) = Some False \<and>
   map_option (map statusCode \<circ> audit_records sample_options)
     (intercept sample_platform sample_options (Some sample_marker) sample_request sample_env
        (threw (ThrownObject \<lparr> err_status = Some 404, err_message = Some ''not found'' \<rparr>) 1007))
     = Some [404] \<and>
   map_option (map responseData \<circ> audit_records sample_options)
     (intercept sample_platform sample_options (Some sample_marker) sample_request sample_env
        (threw (ThrownObject \<lparr> err_status = Some 404, err_message = Some ''not found'' \<rparr>) 1007))
     = Some [JStr ''not found''] \<and>
   map_option fst (serve sample_platform sample_options save_down (Some sample_marker)
       sample_request sample_env
       (threw (ThrownObject \<lparr> err_status = Some 404, err_message = Some ''not found'' \<rparr>) 1007)
       empty_world)
     = Some \<lparr> d_values = [],
              d_final = Failed (ThrownObject
                \<lparr> err_status = Some 404, err_message = Some ''not found'' \<rparr>) \<rparr>"
proof -
  have ex: "shouldExcludeRoute sample_options (req_url sample_request) = Some False"
    by code_simp
  have fl: "coalesce (call_logResponseBody sample_marker) (logResponseBody sample_options)"
    by (simp add: coalesce_def sample_marker_def sample_options_def)
  from error_path_parity [where h = "Some sample_marker" and auditOptions = sample_marker
      and lib = sample_platform and env = sample_env and save = save_down and w = empty_world
      and error = "\<lparr> err_status = Some 404, err_message = Some ''not found'' \<rparr>" and t = 1007,
      OF refl ex]
  show ?thesis
    using ex fl by (auto simp: audit_records_def of_string_option_def)
qed

text \<open>
  In general an audited request leaves one record for every value that the handler's
  observable emits, and one more when it ends with an error whose properties can be read.
\<close>

lemma records_per_event:
  assumes "shouldExcludeRoute options (req_url request) = Some False"
    and "intercept lib options (Some a) request env handled = Some i"
  shows "length (scheduled i) =
           length (emissions handled) +
           (case ending handled of Errored (ThrownObject e) t \<Rightarrow> 1 | _ \<Rightarrow> 0)"
proof (cases "ending handled")
  case Completed
  with assms show ?thesis by (auto simp: intercept_audited_completed)
next
  case (Errored x t)
  with assms show ?thesis
    by (cases x) (auto simp: intercept_audited_nullish intercept_audited_object)
qed

text \<open>
  A handler that returns nothing, audited with response-body logging in effect: the
  record's response data is \<^verbatim>\<open>undefined\<close>, that is, absent.
\<close>

theorem void_response_counterexample:
  "coalesce (call_logResponseBody sample_marker) (logResponseBody sample_options) = True \<and>
   map_option (map responseData \<circ> audit_records sample_options)
     (intercept sample_platform sample_options (Some sample_marker) sample_request sample_env
        (returned JUndefined 204 1007))
   = Some [JUndefined]"
proof -
  have fl: "coalesce (call_logResponseBody sample_marker) (logResponseBody sample_options)"
    by (simp add: coalesce_def sample_marker_def sample_options_def)
  have en: "ending (returned JUndefined 204 1007) = Completed"
    by (simp add: returned_def)
  show ?thesis
    unfolding intercept_audited_completed [OF sample_not_excluded en]
    using fl
    by (simp add: audit_records_def composeAuditData_def on_next_def returned_def Let_def)
qed

text \<open>
  Claim C8, as amended.  For every audited request, the flag in effect for the request
  body, and likewise the one for the response body, is the per-call option when present,
  else the global option when present, else false.  The request data of every record
  composed are present exactly when the flag for the request body is true.  The response
  data of a record are absent when the flag for the response body is false, and are the
  payload of the response when it is true: the value the handler returned, or the message
  of the error it threw, record by record in the order of the events.
\<close>

theorem policy_merge_presence:
  assumes "intercept lib options (Some auditOptions) request env handled = Some i"
  shows "coalesce (Some b) g = b \<and> coalesce None (Some b) = b \<and> coalesce None None = False \<and>
         (\<forall>r \<in> set (audit_records options i).
            (requestData r \<noteq> None) =
              coalesce (call_logRequestBody auditOptions) (logRequestBody options)) \<and>
         (audit_records options i = [] \<or>
          map responseData (audit_records options i) =
            map (\<lambda>d. if coalesce (call_logResponseBody auditOptions) (logResponseBody options)
                      then d else JUndefined)
              (payloads handled))"
proof -
  note t = intercept_marked_tasks [OF assms]
  have rq: "\<forall>r \<in> set (audit_records options i).
            (requestData r \<noteq> None) =
              coalesce (call_logRequestBody auditOptions) (logRequestBody options)"
    using t by (auto simp: audit_records_def composeAuditData_def Let_def)
  have rs: "map responseData (audit_records options i) =
      map (\<lambda>d. if coalesce (call_logResponseBody auditOptions) (logResponseBody options)
                then d else JUndefined)
        (map (\<lambda>p. res_data (p_responseInfo p)) (scheduled i))"
    using t by (auto simp: audit_records_def composeAuditData_def Let_def)
  have "audit_records options i = [] \<or>
          map responseData (audit_records options i) =
            map (\<lambda>d. if coalesce (call_logResponseBody auditOptions) (logResponseBody options)
                      then d else JUndefined)
              (payloads handled)"
  proof (cases "scheduled i = []")
    case True
    then show ?thesis by (simp add: audit_records_def)
  next
    case False
    with t have "map (\<lambda>p. res_data (p_responseInfo p)) (scheduled i) = payloads handled"
      by blast
    with rs show ?thesis by simp
  qed
  with rq show ?thesis by (simp add: coalesce_def)
qed

theorem policy_merge_presence_witness:
  "map_option (map responseData \<circ> audit_records sample_options)
     (intercept sample_platform sample_options (Some sample_marker) sample_request sample_env
        (returned (JStr ''created'') 201 1007))
   = Some [JStr ''created''] \<and>
   map_option (map (Option.is_none \<circ> requestData) \<circ> audit_records sample_options)
     (intercept sample_platform sample_options (Some sample_marker) sample_request sample_env
        (returned (JStr ''created'') 201 1007))
   = Some [False]"
proof -
  have en: "ending (returned (JStr ''created'') 201 1007) = Completed"
    by (simp add: returned_def)
  obtain p where i: "intercept sample_platform sample_options (Some sample_marker)
      sample_request sample_env (returned (JStr ''created'') 201 1007)
      = Some \<lparr> delivered = untouched (returned (JStr ''created'') 201 1007), scheduled = [p] \<rparr>"
    using intercept_audited_completed [OF sample_not_excluded en]
    by (simp add: returned_def)
  have fl: "coalesce (call_logResponseBody sample_marker) (logResponseBody sample_options)"
    "coalesce (call_logRequestBody sample_marker) (logRequestBody sample_options)"
    by (simp_all add: coalesce_def sample_marker_def sample_options_def)
  have pl: "payloads (returned (JStr ''created'') 201 1007) = [JStr ''created'']"
    by (simp add: payloads_def returned_def)
  from policy_merge_presence [OF i]
  show ?thesis
    unfolding i using fl pl by (auto simp: audit_records_def Option.is_none_def)
qed

section \<open>Retention cleanup\<close>

lemma MakeDate_back: "MakeDate (Day t - n) (TimeWithinDay t) = t - n * ms_per_day"
proof -
  have "t div ms_per_day * ms_per_day + t mod ms_per_day = t" by simp
  then show ?thesis
    by (simp add: MakeDate_def Day_def TimeWithinDay_def algebra_simps)
qed

lemma setDate_back_Some:
  "setDate_back tz now n = Some c \<Longrightarrow>
     c = LocalTime tz now - n * ms_per_day - tza_local tz (LocalTime tz now - n * ms_per_day)"
  by (simp add: setDate_back_def Let_def MakeDate_back UTC_def time_clip_def split: if_splits)

text \<open>
  On 2024-03-15 at 16:00 UTC in the sample zone, a row that is less than 90 times 24
  hours old is deleted: the cut-off lies 90 calendar days back at the same local time of
  day, and a clock change in between makes that one hour less.
\<close>

theorem cleanup_dst_counterexample:
  "1710518400000 - 90 * 86400000 \<le> timestamp (row_at 1702744000000) \<and>
   map_option (rows \<circ> snd)
     (cleanupOldAuditLogs \<lparr> delete_failure = None, reports_affected = True \<rparr> sample_zone
        1710518400000 None (empty_world \<lparr> rows := [row_at 1702744000000] \<rparr>))
   = Some []"
proof -
  have c: "setDate_back sample_zone 1710518400000 90 = Some 1702746000000"
    by (simp add: setDate_back_def Let_def MakeDate_back UTC_def LocalTime_def time_clip_def
        sample_zone_def ms_per_day_def)
  show ?thesis
    by (simp add: cleanupOldAuditLogs_def c execute_delete_def row_at_def empty_world_def)
qed

text \<open>
  Claim C10, as amended.  Called without an argument, \<^verbatim>\<open>cleanupOldAuditLogs\<close> behaves
  as with the argument 90.  When the cut-off is a valid date and the delete succeeds, the
  rows that remain are exactly those whose time stamp is not strictly before the cut-off,
  and the count returned is the number of affected rows that the store reports, or 0 when
  it reports none.  The cut-off is the moment 90 calendar days before the clock reading
  at the same local time of day, in the time zone of the process; where the zone keeps
  one offset it is the clock reading less 90 times 24 hours.
\<close>

theorem cleanup_default_retention:
  assumes "delete_failure drv = None" and "setDate_back tz now 90 = Some cutoff"
  shows "cleanupOldAuditLogs drv tz now None w = cleanupOldAuditLogs drv tz now (Some 90) w \<and>
         map_option (rows \<circ> snd) (cleanupOldAuditLogs drv tz now None w) =
           Some (filter (\<lambda>r. \<not> timestamp r < cutoff) (rows w)) \<and>
         map_option fst (cleanupOldAuditLogs drv tz now None w) =
           Some (Inr (if reports_affected drv
                      then length (filter (\<lambda>r. timestamp r < cutoff) (rows w))
                      else 0)) \<and>
         cutoff = LocalTime tz now - 90 * 86400000
                    - tza_local tz (LocalTime tz now - 90 * 86400000) \<and>
         ((\<forall>t. tza_utc tz t = c \<and> tza_local tz t = c) \<longrightarrow> cutoff = now - 90 * 86400000)"
proof -
  have cf: "cutoff = LocalTime tz now - 90 * 86400000
                    - tza_local tz (LocalTime tz now - 90 * 86400000)"
    using setDate_back_Some [OF assms(2)] by (simp add: ms_per_day_def)
  have fx: "cutoff = now - 90 * 86400000" if "\<forall>t. tza_utc tz t = c \<and> tza_local tz t = c"
    using cf that by (simp add: LocalTime_def)
  have a: "cleanupOldAuditLogs drv tz now None w = cleanupOldAuditLogs drv tz now (Some 90) w"
    by (simp add: cleanupOldAuditLogs_def)
  have b: "map_option (rows \<circ> snd) (cleanupOldAuditLogs drv tz now None w) =
           Some (filter (\<lambda>r. \<not> timestamp r < cutoff) (rows w))"
    using assms by (simp add: cleanupOldAuditLogs_def execute_delete_def Let_def)
  have d: "map_option fst (cleanupOldAuditLogs drv tz now None w) =
           Some (Inr (if reports_affected drv
                      then length (filter (\<lambda>r. timestamp r < cutoff) (rows w))
                      else 0))"
    using assms by (simp add: cleanupOldAuditLogs_def execute_delete_def Let_def)
  from a b d cf fx show ?thesis by blast
qed

theorem cleanup_default_retention_witness:
  "setDate_back sample_zone 1710518400000 90 = Some 1702746000000 \<and>
   map_option (rows \<circ> snd)
     (cleanupOldAuditLogs \<lparr> delete_failure = None, reports_affected = False \<rparr> sample_zone
        1710518400000 None
        (empty_world \<lparr> rows := [row_at 0, row_at 1702744000000, row_at 1702750000000] \<rparr>))
     = Some [row_at 1702750000000] \<and>
   map_option fst
     (cleanupOldAuditLogs \<lparr> delete_failure = None, reports_affected = False \<rparr> sample_zone
        1710518400000 None
        (empty_world \<lparr> rows := [row_at 0, row_at 1702744000000, row_at 1702750000000] \<rparr>))
     = Some (Inr 0) \<and>
   setDate_back utc_zone 1710518400000 90 = Some (1710518400000 - 90 * 86400000)"
proof -
  have h: "delete_failure \<lparr> delete_failure = None, reports_affected = False \<rparr> = None"
    by simp
  have c: "setDate_back sample_zone 1710518400000 90 = Some 1702746000000"
    by (simp add: setDate_back_def Let_def MakeDate_back UTC_def LocalTime_def time_clip_def
        sample_zone_def ms_per_day_def)
  have u: "setDate_back utc_zone 1710518400000 90 = Some (1710518400000 - 90 * 86400000)"
    by (simp add: setDate_back_def Let_def MakeDate_back UTC_def LocalTime_def time_clip_def
        utc_zone_def ms_per_day_def)
  have old: "filter (\<lambda>r. \<not> timestamp r < 1702746000000)
      [row_at 0, row_at 1702744000000, row_at 1702750000000] = [row_at 1702750000000]"
    by (simp add: row_at_def)
  from cleanup_default_retention [where
      w = "empty_world \<lparr> rows := [row_at 0, row_at 1702744000000, row_at 1702750000000] \<rparr>",
      OF h c, THEN conjunct2]
  show ?thesis
    using c u old by (simp add: empty_world_def)
qed


section \<open>Route exclusion\<close>

lemma syntax_char_simps [simp]:
  "syntax_char (CHR ''*'')" "syntax_char (CHR ''.'')"
  by (simp_all add: syntax_char_def)

lemma replace_stars_Nil [simp]: "replace_stars [] = []"
  by (simp add: replace_stars_def)

lemma replace_stars_Cons:
  "replace_stars (c # cs) = (if c = CHR ''*'' then ''.*'' else [c]) @ replace_stars cs"
  by (simp add: replace_stars_def)

lemma replace_stars_no_leading_star:
  "replace_stars cs = d # ds \<Longrightarrow> d \<noteq> CHR ''*''"
  by (cases cs) (auto simp: replace_stars_Cons split: if_splits)

lemma parse_regex_replace_stars:
  "\<forall>c \<in> set route. syntax_char c \<longrightarrow> c = CHR ''*'' \<Longrightarrow>
     parse_regex (replace_stars route) = Some (glob_items route)"
proof (induction route)
  case Nil
  show ?case by (simp add: glob_items_def)
next
  case (Cons c cs)
  then have IH: "parse_regex (replace_stars cs) = Some (glob_items cs)" by simp
  show ?case
  proof (cases "c = CHR ''*''")
    case True
    then show ?thesis
      by (simp add: replace_stars_Cons IH glob_items_def atom_of_def)
  next
    case False
    with Cons.prems have ns: "\<not> syntax_char c" by auto
    then have nd: "c \<noteq> CHR ''.''" by auto
    show ?thesis
    proof (cases "replace_stars cs")
      case Nil
      with IH have "glob_items cs = []" by simp
      with Nil False ns nd show ?thesis
        by (simp add: replace_stars_Cons glob_items_def atom_of_def)
    next
      case (Cons d ds)
      then have "d \<noteq> CHR ''*''" by (rule replace_stars_no_leading_star)
      with Cons False ns nd IH show ?thesis
        by (simp add: replace_stars_Cons glob_items_def atom_of_def)
    qed
  qed
qed

lemma re_match_glob_items:
  "list_all (\<lambda>c. \<not> is_line_terminator c) url \<Longrightarrow>
     re_match (glob_items route) url = glob_match route url"
proof (induction route url rule: glob_match.induct)
  case (1 s)
  show ?case by (simp add: glob_items_def)
next
  case (2 p ps)
  then show ?case by (auto simp: glob_items_def)
next
  case (3 p ps c cs)
  then show ?case by (auto simp: glob_items_def)
qed

lemma route_matches_plain:
  assumes "plain_route route" and "list_all (\<lambda>c. \<not> is_line_terminator c) url"
  shows "route_matches url route =
           Some (if CHR ''*'' \<in> set route then glob_match route url else prefix route url)"
proof -
  from assms(1) have "\<forall>c \<in> set route. syntax_char c \<longrightarrow> c = CHR ''*''"
    by (simp add: plain_route_def list_all_iff)
  then have pr: "parse_regex (replace_stars route) = Some (glob_items route)"
    by (rule parse_regex_replace_stars)
  have rm: "re_match (glob_items route) url = glob_match route url"
    by (rule re_match_glob_items [OF assms(2)])
  show ?thesis
  proof (cases "CHR ''*'' \<in> set route")
    case True
    then show ?thesis
      by (simp add: route_matches_def str_includes_def regexp_test_def pr rm)
  next
    case False
    then show ?thesis
      by (simp add: route_matches_def str_includes_def startsWith_def)
  qed
qed

lemma some_Cons_Some:
  "f x = Some b \<Longrightarrow> some f (x # xs) = (if b then Some True else some f xs)"
  by (cases b) simp_all

lemma spec_isExcluded_Cons:
  "spec_isExcluded url (r # rs) =
     ((if CHR ''*'' \<in> set r then glob_match r url else prefix r url) \<or> spec_isExcluded url rs)"
  by (simp only: spec_isExcluded_def list_ex_Cons_iff)

lemma some_route_matches_plain:
  assumes "list_all plain_route routes" and "list_all (\<lambda>c. \<not> is_line_terminator c) url"
  shows "some (route_matches url) routes = Some (spec_isExcluded url routes)"
  using assms(1)
proof (induction routes)
  case Nil
  show ?case by (simp add: spec_isExcluded_def)
next
  case (Cons r rs)
  from Cons.prems have r: "plain_route r" and rs: "list_all plain_route rs" by simp_all
  define b where "b = (if CHR ''*'' \<in> set r then glob_match r url else prefix r url)"
  have rm: "route_matches url r = Some b"
    unfolding b_def by (rule route_matches_plain [OF r assms(2)])
  have "some (route_matches url) (r # rs) = (if b then Some True else some (route_matches url) rs)"
    using rm by (rule some_Cons_Some)
  also have "\<dots> = Some (b \<or> spec_isExcluded url rs)"
    by (simp add: Cons.IH [OF rs])
  also have "b \<or> spec_isExcluded url rs \<longleftrightarrow> spec_isExcluded url (r # rs)"
    unfolding b_def by (simp only: spec_isExcluded_Cons)
  finally show ?case .
qed

lemma shouldExcludeRoute_plain:
  assumes "excludeRoutes options = Some routes" and "list_all plain_route routes"
    and "list_all (\<lambda>c. \<not> is_line_terminator c) url"
  shows "shouldExcludeRoute options url = Some (spec_isExcluded url routes)"
  using assms by (simp add: shouldExcludeRoute_def some_route_matches_plain)

text \<open>
  The examples of the specification: with the patterns \<^verbatim>\<open>/health\<close> and
  \<^verbatim>\<open>/api/*\<close>, the paths \<^verbatim>\<open>/health\<close> and \<^verbatim>\<open>/api/anything\<close> are excluded
  and \<^verbatim>\<open>/apiv2\<close> is not.
\<close>

lemma exclusion_examples:
  "shouldExcludeRoute sample_options ''/health'' = Some True"
  "shouldExcludeRoute sample_options ''/api/anything'' = Some True"
  "shouldExcludeRoute sample_options ''/apiv2'' = Some False"
  by code_simp+

text \<open>
  Claim C7 says that a path is excluded exactly when some pattern matches it, where a
  pattern with a star matches as a whole with each star standing for any characters, and a
  pattern without star matches the paths that start with it.  On plain routes the source
  does that (\<open>shouldExcludeRoute_plain\<close>).  It does not escape the other syntax
  characters of a route before handing it to the regular-expression constructor: with
  the pattern \<^verbatim>\<open>/v1.0/*\<close> the path \<^verbatim>\<open>/v1x0/users\<close> is excluded, although the
  pattern does not match it in the sense of the claim.
\<close>

theorem route_pattern_dot_failing_input:
  "shouldExcludeRoute (sample_options \<lparr> excludeRoutes := Some [''/v1.0/*''] \<rparr>) ''/v1x0/users''
     = Some True \<and>
   spec_isExcluded ''/v1x0/users'' [''/v1.0/*''] = False"
  by code_simp

section \<open>Token resolution\<close>

lemma toLowerCase_names:
  "toLowerCase ''Authorization'' = ''authorization''"
  "toLowerCase ''User-Agent'' = ''user-agent''"
  by code_simp+

lemma req_get_Authorization:
  "req_get request ''Authorization'' = req_headers request ''authorization''"
  by (simp add: req_get_def toLowerCase_names)

lemma req_get_sensitive:
  "n \<in> set customHeaders \<Longrightarrow> req_get request n = req_headers request n"
  by (auto simp: req_get_def customHeaders_def toLowerCase_sensitive)

lemma canonicalize_length:
  "map canonicalize b = ''BEARER'' \<Longrightarrow> length b = 6"
  by (drule arg_cong [where f = length]) simp

lemma takeWhile_run:
  "list_all P sp \<Longrightarrow> v \<noteq> [] \<Longrightarrow> \<not> P (hd v) \<Longrightarrow> takeWhile P (sp @ v) = sp"
  by (induction sp) (auto simp: neq_Nil_conv)

lemma backtrack_full:
  "dot_plus_end (drop k r) = Some v \<Longrightarrow> 0 < k \<Longrightarrow> backtrack k r = Some v"
  by (cases k) simp_all

lemma match_bearer_strips:
  assumes "map canonicalize b = ''BEARER''" and "sp \<noteq> []" and "list_all is_space sp"
    and "v \<noteq> []" and "\<not> is_space (hd v)" and "list_all (\<lambda>c. \<not> is_line_terminator c) v"
  shows "match_bearer (b @ sp @ v) = Some v"
proof -
  have len: "length b = 6" by (rule canonicalize_length [OF assms(1)])
  have tw: "takeWhile is_space (sp @ v) = sp"
    by (rule takeWhile_run [OF assms(3,4,5)])
  have dp: "dot_plus_end (drop (length sp) (sp @ v)) = Some v"
    using assms(4,6) by (simp add: dot_plus_end_def)
  have "backtrack (length sp) (sp @ v) = Some v"
    using dp assms(2) by (intro backtrack_full) simp_all
  then show ?thesis
    using len assms(1) by (simp add: match_bearer_def tw)
qed

lemma match_bearer_no_prefix:
  assumes "\<forall>b c r. a = b @ c # r \<and> map canonicalize b = ''BEARER'' \<longrightarrow> \<not> is_space c"
  shows "match_bearer a = None"
proof (cases "6 \<le> length a \<and> map canonicalize (take 6 a) = ''BEARER''")
  case False
  then show ?thesis by (auto simp: match_bearer_def)
next
  case True
  have "takeWhile is_space (drop 6 a) = []"
  proof (cases "drop 6 a")
    case Nil
    then show ?thesis by simp
  next
    case (Cons c r)
    then have "a = take 6 a @ c # r" by (metis append_take_drop_id)
    with True have "\<not> is_space c"
      by (intro assms [rule_format, of "take 6 a" c r]) simp
    with Cons show ?thesis by simp
  qed
  then show ?thesis by (simp add: match_bearer_def)
qed

lemma first_truthy_index:
  "i < length ks \<Longrightarrow> truthy (f (ks ! i)) \<Longrightarrow> \<forall>j<i. \<not> truthy (f (ks ! j)) \<Longrightarrow>
     first_truthy f ks = f (ks ! i)"
proof (induction ks arbitrary: i)
  case Nil
  then show ?case by simp
next
  case (Cons k ks)
  show ?case
  proof (cases i)
    case 0
    with Cons.prems show ?thesis by simp
  next
    case (Suc n)
    with Cons.prems have "\<not> truthy (f k)" by auto
    moreover from Suc Cons.prems have "first_truthy f ks = f (ks ! n)"
      by (intro Cons.IH) auto
    ultimately show ?thesis using Suc by simp
  qed
qed

lemma first_truthy_none:
  "\<forall>k \<in> set ks. \<not> truthy (f k) \<Longrightarrow> first_truthy f ks = None"
  by (induction ks) simp_all

lemma first_truthy_cong:
  "(\<And>k. k \<in> set ks \<Longrightarrow> f k = g k) \<Longrightarrow> first_truthy f ks = first_truthy g ks"
  by (induction ks) simp_all

lemma first_truthy_Some_truthy:
  "first_truthy f ks = Some v \<Longrightarrow> v \<noteq> []"
  by (induction ks) (auto split: if_splits)

lemma extractToken_auth:
  "req_get request ''Authorization'' = Some a \<Longrightarrow> a \<noteq> [] \<Longrightarrow>
     extractTokenFromRequest request = Some (case match_bearer a of Some v \<Rightarrow> v | None \<Rightarrow> a)"
  by (simp add: extractTokenFromRequest_def split: option.splits)

lemma extractToken_no_auth:
  "\<not> truthy (req_get request ''Authorization'') \<Longrightarrow>
     extractTokenFromRequest request =
       (case first_truthy (req_get request) customHeaders of
          Some v \<Rightarrow> Some v
        | None \<Rightarrow> first_truthy (req_query request) queryParams)"
  by (simp add: extractTokenFromRequest_def)

lemma tok_token_extractTokenInfo:
  "tok_token (extractTokenInfo lib options request) =
     (case customTokenExtractor options of
        Some f \<Rightarrow> f request
      | None \<Rightarrow> extractTokenFromRequest request)"
  by (simp add: extractTokenInfo_def Let_def)

lemma sample_token: "extractTokenFromRequest sample_request = Some ''abc''"
  by code_simp

text \<open>
  A request whose header \<^verbatim>\<open>x-api-token\<close> is present with an empty value, and whose
  header \<^verbatim>\<open>x-auth-token\<close> is \<^verbatim>\<open>k\<close>: the first present custom header is the empty
  one, the source skips it and resolves \<^verbatim>\<open>k\<close>.
\<close>

theorem empty_header_counterexample:
  "req_get empty_header_request ''x-api-token'' = Some [] \<and>
   spec_resolveToken empty_header_request = Some [] \<and>
   extractTokenFromRequest empty_header_request = Some ''k''"
  by code_simp

text \<open>
  Claim C2, as amended.  Without a custom extractor, the raw token is resolved from the
  first source, in this order, whose value is present and not empty.  (1) The
  \<^verbatim>\<open>Authorization\<close> header: when its value is \<^verbatim>\<open>bearer\<close> in any letter case, then
  a run of white space, then a remainder that starts with a character other than white
  space and holds no line terminator, the token is that remainder, the whole run being
  cut off; when its value does not begin with \<^verbatim>\<open>bearer\<close> and a white-space character,
  the token is the value as it is.  (2) The custom headers \<^verbatim>\<open>x-api-token\<close>,
  \<^verbatim>\<open>x-auth-token\<close>, \<^verbatim>\<open>x-access-token\<close>, \<^verbatim>\<open>api-key\<close>, \<^verbatim>\<open>apikey\<close>, in that
  order.  (3) The query parameters \<^verbatim>\<open>token\<close>, \<^verbatim>\<open>apikey\<close>, \<^verbatim>\<open>api_key\<close>,
  \<^verbatim>\<open>access_token\<close>, in that order.  When no source has a non-empty value there is
  no token.  With the header \<^verbatim>\<open>Authorization: Bearer abc\<close> and the query parameter
  \<^verbatim>\<open>token=zzz\<close> the token is \<^verbatim>\<open>abc\<close>.  A configured custom token extractor
  replaces all of this.
\<close>

theorem token_resolution_priority:
  "(req_get request ''Authorization'' = Some a \<and> a \<noteq> [] \<longrightarrow>
      extractTokenFromRequest request =
        Some (case match_bearer a of Some m \<Rightarrow> m | None \<Rightarrow> a)) \<and>
   (map canonicalize b = ''BEARER'' \<and> sp \<noteq> [] \<and> list_all is_space sp \<and> v \<noteq> [] \<and>
    \<not> is_space (hd v) \<and> list_all (\<lambda>c. \<not> is_line_terminator c) v \<longrightarrow>
      match_bearer (b @ sp @ v) = Some v) \<and>
   ((\<forall>b c r. a = b @ c # r \<and> map canonicalize b = ''BEARER'' \<longrightarrow> \<not> is_space c) \<longrightarrow>
      match_bearer a = None) \<and>
   (\<not> truthy (req_get request ''Authorization'') \<and> i < length customHeaders \<and>
    truthy (req_get request (customHeaders ! i)) \<and>
    (\<forall>j<i. \<not> truthy (req_get request (customHeaders ! j))) \<longrightarrow>
      extractTokenFromRequest request = req_get request (customHeaders ! i)) \<and>
   (\<not> truthy (req_get request ''Authorization'') \<and>
    (\<forall>h \<in> set customHeaders. \<not> truthy (req_get request h)) \<and> i < length queryParams \<and>
    truthy (req_query request (queryParams ! i)) \<and>
    (\<forall>j<i. \<not> truthy (req_query request (queryParams ! j))) \<longrightarrow>
      extractTokenFromRequest request = req_query request (queryParams ! i)) \<and>
   (\<not> truthy (req_get request ''Authorization'') \<and>
    (\<forall>h \<in> set customHeaders. \<not> truthy (req_get request h)) \<and>
    (\<forall>q \<in> set queryParams. \<not> truthy (req_query request q)) \<longrightarrow>
      extractTokenFromRequest request = None) \<and>
   customHeaders =
     [''x-api-token'', ''x-auth-token'', ''x-access-token'', ''api-key'', ''apikey''] \<and>
   queryParams = [''token'', ''apikey'', ''api_key'', ''access_token''] \<and>
   tok_token (extractTokenInfo lib options request) =
     (case customTokenExtractor options of
        Some f \<Rightarrow> f request
      | None \<Rightarrow> extractTokenFromRequest request) \<and>
   req_get sample_request ''Authorization'' = Some ''Bearer abc'' \<and>
   req_query sample_request ''token'' = Some ''zzz'' \<and>
   extractTokenFromRequest sample_request = Some ''abc''"
proof -
  have c4: "extractTokenFromRequest request = req_get request (customHeaders ! i)"
    if "\<not> truthy (req_get request ''Authorization'')" "i < length customHeaders"
      "truthy (req_get request (customHeaders ! i))"
      "\<forall>j<i. \<not> truthy (req_get request (customHeaders ! j))"
  proof -
    have ft: "first_truthy (req_get request) customHeaders = req_get request (customHeaders ! i)"
      by (rule first_truthy_index [OF that(2,3,4)])
    from that(3) obtain x where "req_get request (customHeaders ! i) = Some x"
      by (cases "req_get request (customHeaders ! i)") auto
    with ft that(1) show ?thesis by (simp add: extractToken_no_auth)
  qed
  have c5: "extractTokenFromRequest request = req_query request (queryParams ! i)"
    if "\<not> truthy (req_get request ''Authorization'')"
      "\<forall>h \<in> set customHeaders. \<not> truthy (req_get request h)" "i < length queryParams"
      "truthy (req_query request (queryParams ! i))"
      "\<forall>j<i. \<not> truthy (req_query request (queryParams ! j))"
    using that
    by (simp add: extractToken_no_auth first_truthy_none first_truthy_index [OF that(3,4,5)])
  have c6: "extractTokenFromRequest request = None"
    if "\<not> truthy (req_get request ''Authorization'')"
      "\<forall>h \<in> set customHeaders. \<not> truthy (req_get request h)"
      "\<forall>q \<in> set queryParams. \<not> truthy (req_query request q)"
    using that by (simp add: extractToken_no_auth first_truthy_none)
  have ex: "req_get sample_request ''Authorization'' = Some ''Bearer abc''"
    "req_query sample_request ''token'' = Some ''zzz''"
    by code_simp+
  show ?thesis
    using extractToken_auth [of request a] match_bearer_strips [of b sp v]
      match_bearer_no_prefix [of a] c4 c5 c6 tok_token_extractTokenInfo [of lib options request]
      ex sample_token
    by (simp add: customHeaders_def queryParams_def)
qed

theorem token_resolution_priority_witness:
  "match_bearer ''Bearer abc'' = Some ''abc'' \<and>
   extractTokenFromRequest sample_request = Some ''abc'' \<and>
   extractTokenFromRequest empty_header_request = Some ''k''"
proof -
  have h1: "map canonicalize ''Bearer'' = ''BEARER''" "list_all is_space '' ''"
    "\<not> is_space (hd ''abc'')" "list_all (\<lambda>c. \<not> is_line_terminator c) ''abc''"
    by code_simp+
  have h2: "req_get sample_request ''Authorization'' = Some ''Bearer abc''"
    by code_simp
  note t1 = token_resolution_priority [where request = sample_request and a = "''Bearer abc''"
      and b = "''Bearer''" and sp = "'' ''" and v = "''abc''"]
  from t1 h1 have m: "match_bearer ''Bearer abc'' = Some ''abc''" by simp
  from t1 h2 m have e1: "extractTokenFromRequest sample_request = Some ''abc''" by simp
  have h3: "\<not> truthy (req_get empty_header_request ''Authorization'')"
    "(1::nat) < length customHeaders"
    "truthy (req_get empty_header_request (customHeaders ! 1))"
    "req_get empty_header_request (customHeaders ! 1) = Some ''k''"
    "\<not> truthy (req_get empty_header_request (customHeaders ! 0))"
    by code_simp+
  note t2 = token_resolution_priority [where request = empty_header_request and i = 1]
  from h3 have "\<forall>j<1. \<not> truthy (req_get empty_header_request (customHeaders ! j))"
    by simp
  with t2 h3 have e2: "extractTokenFromRequest empty_header_request = Some ''k''"
    by simp
  from m e1 e2 show ?thesis by simp
qed

section \<open>Identity decoding\<close>




lemma split3:
  "split c tk = [x, y, z] \<Longrightarrow> length (split c tk) = 3 \<and> split c tk ! 1 = y"
  by simp









lemma jwt_sample:
  "extractUserIdFromCustomToken sample_platform jwt_sample_token = JStr ''u1''"
  "extractEmailFromCustomToken sample_platform jwt_sample_token = JStr ''a@b.com''"
  by code_simp+



end
